theory Spec2Isabelle
  imports Complex_Main
begin

section \<open>Conventions\<close>

text \<open>
  The development embeds the request handlers of the emergency dispatch application:
  the SOS route (create and patient location update), the driver location route, the
  hospital emergencies route, the tracking route and the document view route, together
  with the geo helpers of the maps service and the document token check.

  \<^item> Time is the number of milliseconds since the epoch, an \<open>int\<close>. A handler reads the
    clock once per request here: the reads of one request are a few instructions apart
    in the source and are identified with the instant \<open>now\<close> of the request.
  \<^item> Coordinates and distances are \<open>real\<close>. The source computes them in IEEE doubles;
    the embedding is the exact real-number reading of the same formulas.
  \<^item> The storage engine is a record of tables (lists of rows in table order), passed in
    and returned updated. Row ids are unique in a table, as the primary key makes them.
  \<^item> A JSON response is a status code and a body, the body a value of type \<open>json\<close> with
    the keys the handler writes.
  \<^item> A storage call succeeds, except in the tracking read, whose behaviour on a storage
    error is part of the handler (\<open>readFails\<close>).
\<close>

section \<open>JSON responses\<close>

datatype json =
    JNull
  | JBool bool
  | JNum real
  | JStr string
  | JObj "(string \<times> json) list"

datatype httpResponse = NextResponse (httpStatus: nat) (body: json)

definition jsonError :: "string \<Rightarrow> nat \<Rightarrow> httpResponse" where
  "jsonError msg code = NextResponse code (JObj [(''error'', JStr msg)])"

definition jOptNum :: "real option \<Rightarrow> json" where
  "jOptNum v = (case v of None \<Rightarrow> JNull | Some x \<Rightarrow> JNum x)"

definition jOptInt :: "int option \<Rightarrow> json" where
  "jOptInt v = (case v of None \<Rightarrow> JNull | Some x \<Rightarrow> JNum (of_int x))"

definition jOptStr :: "string option \<Rightarrow> json" where
  "jOptStr v = (case v of None \<Rightarrow> JNull | Some x \<Rightarrow> JStr x)"

section \<open>GeoRank: the maps service\<close>

text \<open>\<open>Math.atan2(y, x)\<close> on reals.\<close>

definition atan2 :: "real \<Rightarrow> real \<Rightarrow> real" where
  "atan2 y x =
     (if 0 < x then arctan (y / x)
      else if x < 0 \<and> 0 \<le> y then arctan (y / x) + pi
      else if x < 0 \<and> y < 0 then arctan (y / x) - pi
      else if 0 < y then pi / 2
      else if y < 0 then - (pi / 2)
      else 0)"

text \<open>\<open>Math.round\<close> rounds half up.\<close>

definition mathRound :: "real \<Rightarrow> real" where
  "mathRound x = of_int \<lfloor>x + 1 / 2\<rfloor>"

text \<open>
  The body of \<open>calculateDistance\<close> up to \<open>const distance = R * c\<close>: the great-circle
  distance in kilometres before rounding.
\<close>

definition haversineKm :: "real \<Rightarrow> real \<Rightarrow> real \<Rightarrow> real \<Rightarrow> real" where
  "haversineKm lat1 lng1 lat2 lng2 =
     (let R = 6371;
          dLat = ((lat2 - lat1) * pi) / 180;
          dLng = ((lng2 - lng1) * pi) / 180;
          a = sin (dLat / 2) * sin (dLat / 2) +
              cos ((lat1 * pi) / 180) * cos ((lat2 * pi) / 180) *
              sin (dLng / 2) * sin (dLng / 2);
          c = 2 * atan2 (sqrt a) (sqrt (1 - a))
      in R * c)"

definition calculateDistance :: "real \<Rightarrow> real \<Rightarrow> real \<Rightarrow> real \<Rightarrow> real" where
  "calculateDistance lat1 lng1 lat2 lng2 =
     mathRound (haversineKm lat1 lng1 lat2 lng2 * 10) / 10"

definition calculateETA :: "real \<Rightarrow> real \<Rightarrow> int" where
  "calculateETA distanceKmArg averageSpeedKmh =
     (let etaHours = distanceKmArg / averageSpeedKmh in \<lceil>etaHours * 60\<rceil>)"

text \<open>The default argument \<open>averageSpeedKmh = 60\<close>.\<close>

definition calculateETA60 :: "real \<Rightarrow> int" where
  "calculateETA60 distanceKmArg = calculateETA distanceKmArg 60"

definition isValidCoordinate :: "real \<Rightarrow> real \<Rightarrow> bool" where
  "isValidCoordinate lat lng = (lat \<ge> -90 \<and> lat \<le> 90 \<and> lng \<ge> -180 \<and> lng \<le> 180)"

section \<open>Data model\<close>

datatype requestUserRole = Patient | Hospital | Driver

text \<open>The verified identity of a request (\<open>getRequestUser\<close>); \<open>None\<close> when the headers give none.\<close>

record requestUser =
  ru_id :: string
  ru_role :: requestUserRole

record user =
  userId :: string
  role :: requestUserRole
  isActive :: bool
  userName :: string
  userEmail :: string
  userPhone :: string
  vehiclePlate :: "string option"
  licenseNumber :: "string option"
  userAddress :: "string option"
  locationLat :: "real option"
  locationLng :: "real option"
  userCreatedAt :: int

record emergency =
  em_id :: string
  status :: string
  patientId :: string
  patientLat :: real
  patientLng :: real
  address :: string
  symptoms :: "string option"
  severityScore :: "int option"
  aiAssessment :: "string option"
  assignedHospitalId :: "string option"
  assignedDriverId :: "string option"
  driverLat :: "real option"
  driverLng :: "real option"
  driverLastLocationUpdate :: "int option"
  distanceKm :: "real option"
  etaMinutes :: "int option"
  triggeredAt :: int
  acceptedAt :: "int option"
  arrivedAt :: "int option"
  completedAt :: "int option"
  assignedBedType :: "string option"
  hospitalNotes :: "string option"

record medicalDocument =
  doc_id :: string
  doc_url :: string
  cloudinaryId :: string
  doc_expiresAt :: int
  doc_emergencyId :: string

record db =
  users :: "user list"
  emergencies :: "emergency list"
  documents :: "medicalDocument list"

text \<open>\<open>prisma.emergency.update({ where: { id }, data })\<close>: the row with that id is rewritten.\<close>

definition updateEmergency :: "string \<Rightarrow> (emergency \<Rightarrow> emergency) \<Rightarrow> db \<Rightarrow> db" where
  "updateEmergency i f d =
     d\<lparr>emergencies := map (\<lambda>e. if em_id e = i then f e else e) (emergencies d)\<rparr>"

text \<open>\<open>prisma.emergency.create({ data })\<close>: the row is added to the table.\<close>

definition insertEmergency :: "emergency \<Rightarrow> db \<Rightarrow> db" where
  "insertEmergency c d = d\<lparr>emergencies := emergencies d @ [c]\<rparr>"

text \<open>A JavaScript string is falsy when it is missing or empty.\<close>

definition truthy :: "string option \<Rightarrow> bool" where
  "truthy s = (case s of None \<Rightarrow> False | Some v \<Rightarrow> v \<noteq> [])"

definition falsy :: "string option \<Rightarrow> bool" where
  "falsy s = (case s of None \<Rightarrow> True | Some v \<Rightarrow> v = [])"

section \<open>Driver location route\<close>

definition driverTrackingJson :: "real \<Rightarrow> int \<Rightarrow> bool \<Rightarrow> string \<Rightarrow> json" where
  "driverTrackingJson distance eta nearingPatient patientAddress =
     JObj [(''distance'', JNum distance), (''eta'', JNum (of_int eta)),
           (''nearingPatient'', JBool nearingPatient), (''patientAddress'', JStr patientAddress)]"

text \<open>The \<open>data\<close> of the update a driver location report writes.\<close>

definition driverLocationData ::
  "real \<Rightarrow> real \<Rightarrow> int \<Rightarrow> real \<Rightarrow> int \<Rightarrow> string \<Rightarrow> emergency \<Rightarrow> emergency" where
  "driverLocationData latitude longitude now distance eta nextStatus e =
     e\<lparr>driverLat := Some latitude,
       driverLng := Some longitude,
       driverLastLocationUpdate := Some now,
       distanceKm := Some distance,
       etaMinutes := Some eta,
       status := nextStatus\<rparr>"

text \<open>
  \<open>POST /api/driver/location\<close>. \<open>latitude\<close> and \<open>longitude\<close> are \<open>None\<close> when the body
  leaves them out.
\<close>

definition driverLocationPOST ::
  "int \<Rightarrow> requestUser option \<Rightarrow> string option \<Rightarrow> real option \<Rightarrow> real option \<Rightarrow> db
     \<Rightarrow> httpResponse \<times> db" where
  "driverLocationPOST now reqUser emergencyIdArg latitudeArg longitudeArg d =
     (case reqUser of
        None \<Rightarrow> (jsonError ''Unauthorized'' 401, d)
      | Some ru \<Rightarrow>
          if ru_role ru \<noteq> Driver then (jsonError ''Unauthorized'' 401, d)
          else if falsy emergencyIdArg \<or> latitudeArg = None \<or> longitudeArg = None
          then (jsonError ''Emergency ID and coordinates are required'' 400, d)
          else
            let emergencyId = the emergencyIdArg;
                latitude = the latitudeArg;
                longitude = the longitudeArg
            in
            if latitude < -90 \<or> latitude > 90 \<or> longitude < -180 \<or> longitude > 180
            then (jsonError ''Invalid coordinates'' 400, d)
            else
              (case find (\<lambda>e. em_id e = emergencyId \<and> assignedDriverId e = Some (ru_id ru))
                      (emergencies d) of
                 None \<Rightarrow> (jsonError ''Emergency not found or not assigned to you'' 404, d)
               | Some em \<Rightarrow>
                   let distance = calculateDistance latitude longitude (patientLat em) (patientLng em);
                       eta = calculateETA60 distance;
                       nearingPatient = (distance < 1);
                       nextStatus = (if nearingPatient then ''arrived'' else ''en_route'');
                       lastAt = (case driverLastLocationUpdate em of Some t \<Rightarrow> t | None \<Rightarrow> 0);
                       tooSoon = (lastAt \<noteq> 0 \<and> now - lastAt < 4000);
                       movedKm = (case (driverLat em, driverLng em) of
                                    (Some prevLat, Some prevLng) \<Rightarrow>
                                      calculateDistance latitude longitude prevLat prevLng
                                  | _ \<Rightarrow> 999);
                       movedLittle = (movedKm < 2 / 100);
                       statusSame = (status em = nextStatus)
                   in
                   if tooSoon \<and> movedLittle \<and> statusSame
                   then (NextResponse 200
                           (JObj [(''success'', JBool True),
                                  (''tracking'', driverTrackingJson distance eta nearingPatient (address em))]),
                         d)
                   else (NextResponse 200
                           (JObj [(''success'', JBool True),
                                  (''tracking'', driverTrackingJson distance eta nearingPatient (address em)),
                                  (''notification'',
                                     if nearingPatient
                                     then JStr ''You have arrived at the patient location''
                                     else JNull)]),
                         updateEmergency emergencyId
                           (driverLocationData latitude longitude now distance eta nextStatus) d)))"

text \<open>
  \<open>PATCH /api/driver/location\<close>: a driver status action. \<open>statusArg\<close> is the body's
  free-form \<open>status\<close> field, \<open>action\<close> its \<open>action\<close> field. The response's \<open>timestamp\<close>
  key is the request's instant.
\<close>

definition driverStatusData :: "int \<Rightarrow> string option \<Rightarrow> string option \<Rightarrow> emergency \<Rightarrow> emergency" where
  "driverStatusData now statusArg action e =
     (if action = Some ''patient_loaded'' then e\<lparr>status := ''en_route''\<rparr>
      else if action = Some ''arrived_hospital'' then e\<lparr>status := ''arrived'', arrivedAt := Some now\<rparr>
      else if action = Some ''handover_complete'' then e\<lparr>status := ''completed'', completedAt := Some now\<rparr>
      else if truthy statusArg then e\<lparr>status := the statusArg\<rparr>
      else e)"

definition driverLocationPATCH ::
  "int \<Rightarrow> requestUser option \<Rightarrow> string option \<Rightarrow> string option \<Rightarrow> string option \<Rightarrow> db
     \<Rightarrow> httpResponse \<times> db" where
  "driverLocationPATCH now reqUser emergencyIdArg statusArg action d =
     (case reqUser of
        None \<Rightarrow> (jsonError ''Unauthorized'' 401, d)
      | Some ru \<Rightarrow>
          if ru_role ru \<noteq> Driver then (jsonError ''Unauthorized'' 401, d)
          else if falsy emergencyIdArg then (jsonError ''Emergency ID is required'' 400, d)
          else
            let emergencyId = the emergencyIdArg in
            (case find (\<lambda>e. em_id e = emergencyId \<and> assignedDriverId e = Some (ru_id ru))
                    (emergencies d) of
               None \<Rightarrow> (jsonError ''Emergency not found'' 404, d)
             | Some em \<Rightarrow>
                 let updated = driverStatusData now statusArg action em in
                 (NextResponse 200
                    (JObj [(''success'', JBool True),
                           (''emergency'',
                              JObj [(''id'', JStr (em_id updated)), (''status'', JStr (status updated)),
                                    (''action'', jOptStr action), (''timestamp'', JNum (of_int now))])]),
                  updateEmergency emergencyId (driverStatusData now statusArg action) d)))"

section \<open>Dispatch Matcher: nearest hospitals and ambulances\<close>

text \<open>
  \<open>Array.prototype.sort\<close> with a comparator is a stable sort: an element moves before
  another only when the comparator says so. \<open>sortBy\<close> is the stable insertion sort for a
  comparator that returns the sign of the comparison.
\<close>

fun insertBy :: "('a \<Rightarrow> 'a \<Rightarrow> int) \<Rightarrow> 'a \<Rightarrow> 'a list \<Rightarrow> 'a list" where
  "insertBy cmp x [] = [x]"
| "insertBy cmp x (y # ys) = (if cmp x y \<le> 0 then x # y # ys else y # insertBy cmp x ys)"

definition sortBy :: "('a \<Rightarrow> 'a \<Rightarrow> int) \<Rightarrow> 'a list \<Rightarrow> 'a list" where
  "sortBy cmp xs = foldr (insertBy cmp) xs []"

definition signOf :: "real \<Rightarrow> int" where
  "signOf x = (if x < 0 then -1 else if x = 0 then 0 else 1)"

text \<open>A hospital candidate with its distance (the \<open>location\<close> key repeats the coordinates).\<close>

record rankedHospital =
  rh_user :: user
  rh_distance :: real

text \<open>The \<open>where\<close> clause of the hospital query, and the \<open>map\<close> step that adds the distance.\<close>

definition hospitalCandidate :: "user \<Rightarrow> bool" where
  "hospitalCandidate u =
     (role u = Hospital \<and> isActive u \<and> locationLat u \<noteq> None \<and> locationLng u \<noteq> None)"

definition rankHospital :: "real \<Rightarrow> real \<Rightarrow> user \<Rightarrow> rankedHospital" where
  "rankHospital latitude longitude h =
     \<lparr>rh_user = h,
      rh_distance = calculateDistance latitude longitude (the (locationLat h)) (the (locationLng h))\<rparr>"

definition findNearestHospitals :: "real \<Rightarrow> real \<Rightarrow> nat \<Rightarrow> db \<Rightarrow> rankedHospital list" where
  "findNearestHospitals latitude longitude limit d =
     (let candidates = filter hospitalCandidate (users d);
          ranked = take limit
                     (sortBy (\<lambda>a b. signOf (rh_distance a - rh_distance b))
                        (map (rankHospital latitude longitude) candidates))
      in ranked)"

text \<open>
  A driver candidate with its distance; \<open>None\<close> is \<open>Number.POSITIVE_INFINITY\<close>, the
  distance of a driver without a location.
\<close>

record rankedDriver =
  rd_user :: user
  rd_distance :: "real option"

text \<open>
  The comparator of \<open>findNearestAmbulances\<close>. \<open>localeCompare\<close> is the platform's string
  collation, a parameter. For two drivers without a location \<open>a.distance - b.distance\<close>
  is \<open>NaN\<close>, which is returned (\<open>NaN !== 0\<close>) and which \<open>sort\<close> reads as 0.
\<close>

definition ambulanceCompare :: "(string \<Rightarrow> string \<Rightarrow> int) \<Rightarrow> rankedDriver \<Rightarrow> rankedDriver \<Rightarrow> int" where
  "ambulanceCompare localeCompare a b =
     (case (rd_distance a, rd_distance b) of
        (Some x, Some y) \<Rightarrow>
          (if x - y \<noteq> 0 then signOf (x - y)
           else localeCompare (userId (rd_user a)) (userId (rd_user b)))
      | (Some x, None) \<Rightarrow> -1
      | (None, Some y) \<Rightarrow> 1
      | (None, None) \<Rightarrow> 0)"

text \<open>
  The \<open>where\<close> clause of the driver query (the license is part of it only when one is
  given), and the \<open>map\<close> step that adds the distance.
\<close>

definition driverCandidate :: "string option \<Rightarrow> user \<Rightarrow> bool" where
  "driverCandidate licenseArg u =
     (role u = Driver \<and> isActive u \<and>
      (if truthy licenseArg then licenseNumber u = licenseArg else True))"

definition rankDriver :: "real \<Rightarrow> real \<Rightarrow> user \<Rightarrow> rankedDriver" where
  "rankDriver latitude longitude dr =
     (let hasLocation = (locationLat dr \<noteq> None \<and> locationLng dr \<noteq> None)
      in \<lparr>rd_user = dr,
          rd_distance =
            (if hasLocation
             then Some (calculateDistance latitude longitude (the (locationLat dr)) (the (locationLng dr)))
             else None)\<rparr>)"

definition findNearestAmbulances ::
  "(string \<Rightarrow> string \<Rightarrow> int) \<Rightarrow> real \<Rightarrow> real \<Rightarrow> nat \<Rightarrow> string option \<Rightarrow> db \<Rightarrow> rankedDriver list" where
  "findNearestAmbulances localeCompare latitude longitude limit licenseArg d =
     (let candidates = filter (driverCandidate licenseArg) (users d);
          ranked = take limit
                     (sortBy (ambulanceCompare localeCompare)
                        (map (rankDriver latitude longitude) candidates))
      in ranked)"

section \<open>SOS route: create and patient location update\<close>

text \<open>
  The \<open>location\<close> object of a request body. A coordinate is \<open>None\<close> when it is missing,
  \<open>null\<close> or not a finite number.
\<close>

record locationArg =
  loc_lat :: "real option"
  loc_lng :: "real option"
  loc_address :: "string option"

definition invalidLocation :: "locationArg option \<Rightarrow> bool" where
  "invalidLocation location =
     (case location of None \<Rightarrow> True | Some l \<Rightarrow> loc_lat l = None \<or> loc_lng l = None)"

definition userLocationJson :: "user \<Rightarrow> json" where
  "userLocationJson h =
     (case (locationLat h, locationLng h) of
        (Some la, Some lo) \<Rightarrow> JObj [(''lat'', JNum la), (''lng'', JNum lo)]
      | _ \<Rightarrow> JNull)"

definition orNull :: "string option \<Rightarrow> string option" where
  "orNull s = (if truthy s then s else None)"

definition hospitalJson :: "user \<Rightarrow> string option \<Rightarrow> json" where
  "hospitalJson h license =
     JObj [(''id'', JStr (userId h)), (''name'', JStr (userName h)),
           (''licenseNumber'', jOptStr license),
           (''address'', jOptStr (orNull (userAddress h))),
           (''location'', userLocationJson h)]"

text \<open>The body of the three "accepted" (202) responses, which differ in the message.\<close>

definition hospitalOnlyJson :: "string \<Rightarrow> string \<Rightarrow> user \<Rightarrow> string option \<Rightarrow> json" where
  "hospitalOnlyJson sosId message h license =
     JObj [(''sosId'', JStr sosId), (''ambulanceDispatched'', JBool False),
           (''message'', JStr message),
           (''hospitalAssigned'', JStr (userName h)),
           (''hospitalLicenseNumber'', jOptStr license),
           (''hospital'', hospitalJson h license),
           (''eta'', JNull)]"

definition msgFallback :: string where
  "msgFallback = ''Hospitals are missing location coordinates, so the emergency was assigned without distance ranking. Please ensure hospitals set their locationLat/locationLng.''"

definition msgNoLicense :: string where
  "msgNoLicense = ''Nearest hospital has no license on file, so no ambulance can be assigned automatically.''"

definition msgNoAmbulance :: string where
  "msgNoAmbulance = ''No matching ambulances available for this hospital license. Emergency dispatched manually.''"

text \<open>
  \<open>prisma.user.findFirst({ where: { role: "hospital", isActive: true }, orderBy: { createdAt: "asc" } })\<close>.
\<close>

definition fallbackHospitalOf :: "db \<Rightarrow> user option" where
  "fallbackHospitalOf d =
     (case sortBy (\<lambda>a b. if userCreatedAt a < userCreatedAt b then -1
                          else if userCreatedAt a = userCreatedAt b then 0 else 1)
             (filter (\<lambda>u. role u = Hospital \<and> isActive u) (users d)) of
        [] \<Rightarrow> None
      | h # _ \<Rightarrow> Some h)"

text \<open>The row \<open>prisma.emergency.create\<close> writes; the columns it does not set are null.\<close>

definition createdEmergency :: "string \<Rightarrow> string \<Rightarrow> int \<Rightarrow> locationArg \<Rightarrow> string option \<Rightarrow> emergency" where
  "createdEmergency newId pid now l symptomsArg =
     \<lparr>em_id = newId, status = ''pending'', patientId = pid,
      patientLat = the (loc_lat l), patientLng = the (loc_lng l),
      address = (if truthy (loc_address l) then the (loc_address l) else ''Location not available''),
      symptoms = orNull symptomsArg,
      severityScore = None, aiAssessment = None,
      assignedHospitalId = None, assignedDriverId = None,
      driverLat = None, driverLng = None, driverLastLocationUpdate = None,
      distanceKm = None, etaMinutes = None,
      triggeredAt = now, acceptedAt = None, arrivedAt = None, completedAt = None,
      assignedBedType = None, hospitalNotes = None\<rparr>"

text \<open>The \<open>data\<close> of the updates create writes after the matching.\<close>

definition hospitalOnlyData :: "string \<Rightarrow> int \<Rightarrow> string \<Rightarrow> emergency \<Rightarrow> emergency" where
  "hospitalOnlyData hospitalId severity assessment e =
     e\<lparr>assignedHospitalId := Some hospitalId,
       severityScore := Some severity,
       aiAssessment := Some assessment\<rparr>"

definition dispatchedData ::
  "string \<Rightarrow> string \<Rightarrow> int \<Rightarrow> string \<Rightarrow> int option \<Rightarrow> real option \<Rightarrow> emergency \<Rightarrow> emergency" where
  "dispatchedData hospitalId driverId severity assessment etaMinutesV distanceKmV e =
     e\<lparr>assignedHospitalId := Some hospitalId,
       assignedDriverId := Some driverId,
       severityScore := Some severity,
       aiAssessment := Some assessment,
       etaMinutes := (case etaMinutesV of Some v \<Rightarrow> Some v | None \<Rightarrow> etaMinutes e),
       distanceKm := (case distanceKmV of Some v \<Rightarrow> Some v | None \<Rightarrow> distanceKm e),
       status := ''assigned''\<rparr>"

text \<open>
  \<open>POST /api/emergency/sos\<close>. \<open>newId\<close> is the id the store generates for the created
  row; \<open>aiResult\<close> is what \<open>analyzeSymptomsWithAI\<close> gives (severity score and
  assessment), \<open>None\<close> when it throws or returns nothing.
\<close>

definition sosPOST ::
  "(string \<Rightarrow> string \<Rightarrow> int) \<Rightarrow> int \<Rightarrow> string \<Rightarrow> (int \<times> string) option
     \<Rightarrow> requestUser option \<Rightarrow> locationArg option \<Rightarrow> string option \<Rightarrow> db \<Rightarrow> httpResponse \<times> db" where
  "sosPOST localeCompare now newId aiResult reqUser location symptomsArg d =
     (case reqUser of
        None \<Rightarrow> (jsonError ''Unauthorized'' 401, d)
      | Some ru \<Rightarrow>
          if ru_role ru \<noteq> Patient then (jsonError ''Unauthorized'' 401, d)
          else if invalidLocation location then (jsonError ''Invalid location data'' 400, d)
          else
            let l = the location;
                lat = the (loc_lat l);
                lng = the (loc_lng l);
                d1 = insertEmergency (createdEmergency newId (ru_id ru) now l symptomsArg) d;
                severity = (case aiResult of Some r \<Rightarrow> fst r | None \<Rightarrow> 50);
                assessment = (case aiResult of Some r \<Rightarrow> snd r
                              | None \<Rightarrow> ''Symptoms received, awaiting analysis'');
                hospitals = findNearestHospitals lat lng 5 d1
            in
            (case hospitals of
               [] \<Rightarrow>
                 (case fallbackHospitalOf d1 of
                    None \<Rightarrow> (jsonError ''No hospitals available'' 503, d1)
                  | Some fallbackHospital \<Rightarrow>
                      (NextResponse 202
                         (hospitalOnlyJson newId msgFallback fallbackHospital
                            (orNull (licenseNumber fallbackHospital))),
                       updateEmergency newId
                         (hospitalOnlyData (userId fallbackHospital) severity assessment) d1))
             | assignedHospital # _ \<Rightarrow>
                 let h = rh_user assignedHospital;
                     assignedHospitalLicense = orNull (licenseNumber h)
                 in
                 if assignedHospitalLicense = None
                 then (NextResponse 202 (hospitalOnlyJson newId msgNoLicense h None),
                       updateEmergency newId (hospitalOnlyData (userId h) severity assessment) d1)
                 else
                   (case findNearestAmbulances localeCompare lat lng 3 assignedHospitalLicense d1 of
                      [] \<Rightarrow>
                        (NextResponse 202 (hospitalOnlyJson newId msgNoAmbulance h assignedHospitalLicense),
                         updateEmergency newId (hospitalOnlyData (userId h) severity assessment) d1)
                    | assignedAmbulance # _ \<Rightarrow>
                        let dr = rd_user assignedAmbulance;
                            canComputeEta = (locationLat dr \<noteq> None \<and> locationLng dr \<noteq> None);
                            distanceKmV = (if canComputeEta
                                           then Some (calculateDistance (the (locationLat dr))
                                                        (the (locationLng dr)) lat lng)
                                           else None);
                            etaMinutesV = (case distanceKmV of
                                             Some dk \<Rightarrow> Some (calculateETA60 dk) | None \<Rightarrow> None)
                        in
                        (NextResponse 201
                           (JObj [(''sosId'', JStr newId), (''ambulanceDispatched'', JBool True),
                                  (''eta'', jOptInt etaMinutesV),
                                  (''distanceKm'', jOptNum distanceKmV),
                                  (''hospitalAssigned'', JStr (userName h)),
                                  (''hospitalLicenseNumber'', jOptStr assignedHospitalLicense),
                                  (''hospitalLocation'', userLocationJson h),
                                  (''hospital'', hospitalJson h assignedHospitalLicense),
                                  (''driverId'', JStr (userId dr)),
                                  (''driverEmail'', JStr (userEmail dr)),
                                  (''driverName'', JStr (userName dr)),
                                  (''severityScore'', JNum (of_int severity)),
                                  (''priority'', JStr ''medium'')]),
                         updateEmergency newId
                           (dispatchedData (userId h) (userId dr) severity assessment etaMinutesV distanceKmV)
                           d1))))"

text \<open>\<open>PATCH /api/emergency/sos\<close>: the patient's location update, and the \<open>data\<close> it writes.\<close>

definition patientLocationData :: "locationArg \<Rightarrow> emergency \<Rightarrow> emergency" where
  "patientLocationData l e =
     e\<lparr>patientLat := the (loc_lat l),
       patientLng := the (loc_lng l),
       address := (case loc_address l of Some a \<Rightarrow> a | None \<Rightarrow> address e)\<rparr>"

definition sosPATCH ::
  "requestUser option \<Rightarrow> string option \<Rightarrow> locationArg option \<Rightarrow> db \<Rightarrow> httpResponse \<times> db" where
  "sosPATCH reqUser emergencyIdArg location d =
     (case reqUser of
        None \<Rightarrow> (jsonError ''Unauthorized'' 401, d)
      | Some ru \<Rightarrow>
          if ru_role ru \<noteq> Patient then (jsonError ''Unauthorized'' 401, d)
          else if falsy emergencyIdArg then (jsonError ''Emergency ID is required'' 400, d)
          else if invalidLocation location then (jsonError ''Invalid location data'' 400, d)
          else
            let emergencyId = the emergencyIdArg;
                l = the location
            in
            (case find (\<lambda>e. em_id e = emergencyId \<and> patientId e = ru_id ru) (emergencies d) of
               None \<Rightarrow> (jsonError ''Emergency not found'' 404, d)
             | Some em \<Rightarrow>
                 let updated = patientLocationData l em in
                 (if status updated = ''completed''
                  then NextResponse 200 (JObj [(''success'', JBool True), (''status'', JStr ''completed'')])
                  else NextResponse 200
                         (JObj [(''success'', JBool True),
                                (''emergency'',
                                   JObj [(''id'', JStr (em_id updated)), (''status'', JStr (status updated)),
                                         (''patientLat'', JNum (patientLat updated)),
                                         (''patientLng'', JNum (patientLng updated))])]),
                  updateEmergency emergencyId (patientLocationData l) d)))"

section \<open>Hospital emergencies route\<close>

text \<open>
  The \<open>where\<close> clause of the feed query. \<open>statusArg\<close> is the \<open>status\<close> query parameter;
  without one the clause asks for \<open>status: { not: "completed" }\<close>.
\<close>

definition hasLiveDocument :: "int \<Rightarrow> db \<Rightarrow> emergency \<Rightarrow> bool" where
  "hasLiveDocument now d e =
     list_ex (\<lambda>doc. doc_emergencyId doc = em_id e \<and> doc_expiresAt doc > now) (documents d)"

definition hasNoDocuments :: "db \<Rightarrow> emergency \<Rightarrow> bool" where
  "hasNoDocuments d e = (\<not> list_ex (\<lambda>doc. doc_emergencyId doc = em_id e) (documents d))"

definition feedWhere :: "int \<Rightarrow> string \<Rightarrow> string option \<Rightarrow> db \<Rightarrow> emergency \<Rightarrow> bool" where
  "feedWhere now hospitalId statusArg d e =
     (let cutoff = now - 60 * 60 * 1000 in
      assignedHospitalId e = Some hospitalId \<and>
      (if truthy statusArg then status e = the statusArg else status e \<noteq> ''completed'') \<and>
      (hasLiveDocument now d e \<or> (hasNoDocuments d e \<and> triggeredAt e \<ge> cutoff)))"

text \<open>
  \<open>findMany\<close> with \<open>orderBy: { triggeredAt: "desc" }, take: limit, skip: offset\<close>. Rows
  with equal \<open>triggeredAt\<close> keep their table order.
\<close>

definition feedFindMany :: "int \<Rightarrow> string \<Rightarrow> string option \<Rightarrow> nat \<Rightarrow> nat \<Rightarrow> db \<Rightarrow> emergency list" where
  "feedFindMany now hospitalId statusArg limit offset d =
     take limit (drop offset
       (sortBy (\<lambda>a b. if triggeredAt a > triggeredAt b then -1
                       else if triggeredAt a = triggeredAt b then 0 else 1)
          (filter (feedWhere now hospitalId statusArg d) (emergencies d))))"

text \<open>The \<open>seenPatients\<close> filter: the first row of each patient is kept.\<close>

fun dedupeByPatient :: "string list \<Rightarrow> emergency list \<Rightarrow> emergency list" where
  "dedupeByPatient seenPatients [] = []"
| "dedupeByPatient seenPatients (e # es) =
     (let pid = patientId e in
      if pid = [] then dedupeByPatient seenPatients es
      else if pid \<in> set seenPatients then dedupeByPatient seenPatients es
      else e # dedupeByPatient (pid # seenPatients) es)"

text \<open>
  The emergencies of a feed response computed from the store (the list \<open>deduped\<close> of
  \<open>GET /api/hospital/emergencies\<close>). The handler renders each as JSON and keeps the
  payload in a per-hospital cache for 3 seconds.
\<close>

definition hospitalFeed :: "int \<Rightarrow> string \<Rightarrow> string option \<Rightarrow> nat \<Rightarrow> nat \<Rightarrow> db \<Rightarrow> emergency list" where
  "hospitalFeed now hospitalId statusArg limit offset d =
     dedupeByPatient [] (feedFindMany now hospitalId statusArg limit offset d)"

text \<open>\<open>POST /api/hospital/emergencies\<close>: the hospital accepts a case.\<close>

definition acceptData :: "string \<Rightarrow> int \<Rightarrow> emergency \<Rightarrow> emergency" where
  "acceptData hospitalId now e =
     e\<lparr>assignedHospitalId := Some hospitalId,
       status := ''assigned'',
       acceptedAt := Some now\<rparr>"

definition hospitalAcceptPOST ::
  "int \<Rightarrow> requestUser option \<Rightarrow> string option \<Rightarrow> db \<Rightarrow> httpResponse \<times> db" where
  "hospitalAcceptPOST now reqUser emergencyIdArg d =
     (case reqUser of
        None \<Rightarrow> (jsonError ''Unauthorized'' 401, d)
      | Some ru \<Rightarrow>
          if ru_role ru \<noteq> Hospital then (jsonError ''Unauthorized'' 401, d)
          else if falsy emergencyIdArg then (jsonError ''Emergency ID is required'' 400, d)
          else
            let emergencyId = the emergencyIdArg in
            (case find (\<lambda>e. em_id e = emergencyId) (emergencies d) of
               None \<Rightarrow> (jsonError ''Emergency not found'' 404, d)
             | Some em \<Rightarrow>
                 (NextResponse 200
                    (JObj [(''success'', JBool True),
                           (''emergency'',
                              JObj [(''id'', JStr (em_id em)), (''status'', JStr ''assigned''),
                                    (''acceptedAt'', JNum (of_int now))])]),
                  updateEmergency emergencyId (acceptData (ru_id ru) now) d)))"

text \<open>\<open>PUT /api/hospital/emergencies\<close>: the hospital sets a status.\<close>

definition validStatuses :: "string list" where
  "validStatuses = [''pending'', ''assigned'', ''en_route'', ''arrived'', ''completed'']"

definition hospitalStatusData ::
  "int \<Rightarrow> string \<Rightarrow> string option \<Rightarrow> string option \<Rightarrow> emergency \<Rightarrow> emergency" where
  "hospitalStatusData now statusV bedType notesArg e =
     (let e1 = e\<lparr>status := statusV\<rparr>;
          e2 = (if statusV = ''arrived'' then e1\<lparr>arrivedAt := Some now\<rparr>
                else if statusV = ''completed'' then e1\<lparr>completedAt := Some now\<rparr>
                else e1);
          e3 = (if truthy bedType then e2\<lparr>assignedBedType := bedType\<rparr> else e2);
          e4 = (if truthy notesArg then e3\<lparr>hospitalNotes := notesArg\<rparr> else e3)
      in e4)"

definition hospitalStatusPUT ::
  "int \<Rightarrow> requestUser option \<Rightarrow> string option \<Rightarrow> string option \<Rightarrow> string option \<Rightarrow> string option
     \<Rightarrow> db \<Rightarrow> httpResponse \<times> db" where
  "hospitalStatusPUT now reqUser emergencyIdArg statusArg bedType notesArg d =
     (case reqUser of
        None \<Rightarrow> (jsonError ''Unauthorized'' 401, d)
      | Some ru \<Rightarrow>
          if ru_role ru \<noteq> Hospital then (jsonError ''Unauthorized'' 401, d)
          else if falsy emergencyIdArg \<or> falsy statusArg
          then (jsonError ''Emergency ID and status are required'' 400, d)
          else
            let emergencyId = the emergencyIdArg;
                statusV = the statusArg
            in
            if statusV \<notin> set validStatuses then (jsonError ''Invalid status'' 400, d)
            else
              (case find (\<lambda>e. em_id e = emergencyId) (emergencies d) of
                 None \<Rightarrow> (jsonError ''Emergency not found'' 404, d)
               | Some em \<Rightarrow>
                   (NextResponse 200
                      (JObj [(''success'', JBool True),
                             (''emergency'',
                                JObj [(''id'', JStr (em_id em)), (''status'', JStr statusV),
                                      (''updatedAt'', JNum (of_int now))])]),
                    updateEmergency emergencyId (hospitalStatusData now statusV bedType notesArg) d)))"

section \<open>Tracking route and its read cache\<close>

record cacheEntry =
  expiresAt :: int
  createdAt :: int
  payload :: json

type_synonym trackingCache = "string \<rightharpoonup> cacheEntry"

definition roleString :: "requestUserRole \<Rightarrow> string" where
  "roleString r = (case r of Patient \<Rightarrow> ''patient'' | Hospital \<Rightarrow> ''hospital'' | Driver \<Rightarrow> ''driver'')"

definition trackingCacheKey :: "requestUser \<Rightarrow> string \<Rightarrow> string" where
  "trackingCacheKey ru emergencyId =
     roleString (ru_role ru) @ '':'' @ ru_id ru @ '':emergency_tracking:'' @ emergencyId"

text \<open>The access predicate of the tracking read.\<close>

definition hasAccess :: "requestUser \<Rightarrow> emergency \<Rightarrow> bool" where
  "hasAccess ru e =
     (patientId e = ru_id ru \<or>
      (ru_role ru = Hospital \<and> assignedHospitalId e = Some (ru_id ru)) \<or>
      (ru_role ru = Driver \<and> assignedDriverId e = Some (ru_id ru)))"

definition findUser :: "string option \<Rightarrow> db \<Rightarrow> user option" where
  "findUser uid d = (case uid of None \<Rightarrow> None | Some i \<Rightarrow> find (\<lambda>u. userId u = i) (users d))"

definition trackingPayload :: "db \<Rightarrow> emergency \<Rightarrow> json" where
  "trackingPayload d e =
     JObj [(''success'', JBool True),
           (''tracking'',
              JObj [(''emergencyId'', JStr (em_id e)),
                    (''status'', JStr (status e)),
                    (''patient'', JObj [(''lat'', JNum (patientLat e)), (''lng'', JNum (patientLng e)),
                                        (''address'', JStr (address e))]),
                    (''ambulance'',
                       (case (driverLat e, driverLng e) of
                          (Some la, Some lo) \<Rightarrow>
                            JObj [(''lat'', JNum la), (''lng'', JNum lo),
                                  (''lastUpdate'', jOptInt (driverLastLocationUpdate e))]
                        | _ \<Rightarrow> JNull)),
                    (''etaMinutes'', jOptInt (etaMinutes e)),
                    (''distanceKm'', jOptNum (distanceKm e)),
                    (''hospital'',
                       (case findUser (assignedHospitalId e) d of
                          Some h \<Rightarrow>
                            JObj [(''id'', JStr (userId h)), (''name'', JStr (userName h)),
                                  (''licenseNumber'', jOptStr (licenseNumber h)),
                                  (''phone'', JStr (userPhone h)),
                                  (''address'', jOptStr (userAddress h)),
                                  (''lat'', jOptNum (locationLat h)), (''lng'', jOptNum (locationLng h))]
                        | None \<Rightarrow> JNull)),
                    (''driver'',
                       (case findUser (assignedDriverId e) d of
                          Some dr \<Rightarrow>
                            JObj [(''id'', JStr (userId dr)), (''name'', JStr (userName dr)),
                                  (''phone'', JStr (userPhone dr)),
                                  (''vehiclePlate'', jOptStr (vehiclePlate dr))]
                        | None \<Rightarrow> JNull))])]"

text \<open>\<open>{ ...cached.payload, stale: true }\<close>.\<close>

definition markStale :: "json \<Rightarrow> json" where
  "markStale p =
     (case p of JObj kvs \<Rightarrow> JObj (filter (\<lambda>kv. fst kv \<noteq> ''stale'') kvs @ [(''stale'', JBool True)])
      | _ \<Rightarrow> JObj [(''stale'', JBool True)])"

text \<open>
  \<open>GET /api/emergency/tracking\<close>. \<open>readFails\<close> says that the read of the emergency
  throws (a storage error), which takes the handler to its \<open>catch\<close> block. The result is
  the response and the cache after the request; the handler does not write the store.
\<close>

definition trackingGET ::
  "int \<Rightarrow> bool \<Rightarrow> requestUser option \<Rightarrow> string option \<Rightarrow> trackingCache \<Rightarrow> db
     \<Rightarrow> httpResponse \<times> trackingCache" where
  "trackingGET now readFails reqUser emergencyIdArg cache d =
     (case reqUser of
        None \<Rightarrow> (jsonError ''Unauthorized'' 401, cache)
      | Some ru \<Rightarrow>
          if falsy emergencyIdArg then (jsonError ''Emergency ID is required'' 400, cache)
          else
            let emergencyId = the emergencyIdArg;
                cacheKey = trackingCacheKey ru emergencyId;
                cached = cache cacheKey
            in
            if (case cached of Some c \<Rightarrow> expiresAt c > now | None \<Rightarrow> False)
            then (NextResponse 200 (payload (the cached)), cache)
            else if readFails
            then (if (case cached of Some c \<Rightarrow> now - createdAt c < 30000 | None \<Rightarrow> False)
                  then (NextResponse 200 (markStale (payload (the cached))), cache)
                  else (NextResponse 500 (JObj [(''error'', JStr ''Failed to fetch tracking'')]), cache))
            else
              (case find (\<lambda>e. em_id e = emergencyId) (emergencies d) of
                 None \<Rightarrow> (jsonError ''Emergency not found'' 404, cache)
               | Some em \<Rightarrow>
                   if \<not> hasAccess ru em then (jsonError ''Unauthorized'' 403, cache)
                   else
                     let p = trackingPayload d em in
                     (NextResponse 200 p,
                      cache(cacheKey \<mapsto> \<lparr>expiresAt = now + 2000, createdAt = now, payload = p\<rparr>))))"

section \<open>Driver assignment route\<close>

text \<open>
  The query of \<open>GET /api/driver/assignment\<close>: the driver's own row gives the license
  (no license, no assignment); the emergency found is the latest one assigned to the
  driver, with status \<open>assigned\<close> or \<open>en_route\<close>, whose assigned hospital has that
  license. The handler renders it (204 when there is none) and keeps the payload in a
  per-driver cache for 2 seconds.
\<close>

definition driverAssignmentWhere :: "requestUser \<Rightarrow> string \<Rightarrow> db \<Rightarrow> emergency \<Rightarrow> bool" where
  "driverAssignmentWhere ru driverLicense d e =
     (assignedDriverId e = Some (ru_id ru) \<and>
      (status e = ''assigned'' \<or> status e = ''en_route'') \<and>
      (case findUser (assignedHospitalId e) d of
         Some h \<Rightarrow> licenseNumber h = Some driverLicense
       | None \<Rightarrow> False))"

definition driverAssignmentFind :: "requestUser \<Rightarrow> db \<Rightarrow> emergency option" where
  "driverAssignmentFind ru d =
     (case findUser (Some (ru_id ru)) d of
        None \<Rightarrow> None
      | Some driver \<Rightarrow>
          (case orNull (licenseNumber driver) of
             None \<Rightarrow> None
           | Some driverLicense \<Rightarrow>
               (case sortBy (\<lambda>a b. if triggeredAt a > triggeredAt b then -1
                                    else if triggeredAt a = triggeredAt b then 0 else 1)
                       (filter (driverAssignmentWhere ru driverLicense d) (emergencies d)) of
                  [] \<Rightarrow> None
                | e # _ \<Rightarrow> Some e)))"

section \<open>Document Access Controller\<close>

record documentTokenPayload =
  tok_documentId :: string
  tok_userId :: string
  tok_role :: string
  tok_exp :: int

text \<open>
  The platform functions \<open>verifyDocumentToken\<close> calls: the server secret (\<open>None\<close> when no
  environment variable holds one), \<open>crypto.createHmac('sha256', secret)\<close> as a function of
  the secret and the message, the base64url decoder, and \<open>JSON.parse\<close> of the decoded
  payload (\<open>None\<close> when it throws; a missing field reads as the empty string or 0).
\<close>

record tokenEnv =
  secret :: "string option"
  hmacSha256 :: "string \<Rightarrow> string \<Rightarrow> string"
  base64urlToBuffer :: "string \<Rightarrow> string"
  jsonParse :: "string \<Rightarrow> documentTokenPayload option"

text \<open>\<open>String.prototype.split\<close> on one character.\<close>

fun splitChar :: "char \<Rightarrow> string \<Rightarrow> string list" where
  "splitChar c [] = [[]]"
| "splitChar c (x # xs) =
     (if x = c then [] # splitChar c xs
      else (case splitChar c xs of [] \<Rightarrow> [[x]] | p # ps \<Rightarrow> (x # p) # ps))"

definition verifyDocumentToken :: "tokenEnv \<Rightarrow> int \<Rightarrow> string \<Rightarrow> documentTokenPayload option" where
  "verifyDocumentToken env now token =
     (case splitChar CHR ''.'' token of
        payloadB64 # sigB64 # _ \<Rightarrow>
          if payloadB64 = [] \<or> sigB64 = [] then None
          else if falsy (secret env) then None
          else
            let expectedSig = hmacSha256 env (the (secret env)) payloadB64;
                providedSig = base64urlToBuffer env sigB64
            in
            if length providedSig \<noteq> length expectedSig then None
            else if expectedSig \<noteq> providedSig then None
            else
              (case jsonParse env (base64urlToBuffer env payloadB64) of
                 None \<Rightarrow> None
               | Some p \<Rightarrow>
                   if tok_documentId p = [] \<or> tok_userId p = [] \<or> tok_role p = [] \<or> tok_exp p = 0
                   then None
                   else if tok_exp p < now div 1000 then None
                   else Some p)
      | _ \<Rightarrow> None)"

text \<open>
  The state of the document view: the store and the blob store (the ids of the blobs it
  holds).
\<close>

record docState =
  store :: db
  blobs :: "string set"

text \<open>
  \<open>deleteExpiredDocument\<close>: \<open>destroyOk\<close> says that the blob store carries the destroy
  request out; the function swallows its failure.
\<close>

definition deleteExpiredDocument :: "bool \<Rightarrow> string \<Rightarrow> string set \<Rightarrow> string set" where
  "deleteExpiredDocument destroyOk cid bs = (if destroyOk then bs - {cid} else bs)"

definition deleteDocumentRow :: "string \<Rightarrow> db \<Rightarrow> db" where
  "deleteDocumentRow i d = d\<lparr>documents := filter (\<lambda>doc. doc_id doc \<noteq> i) (documents d)\<rparr>"

definition isPrefixOf :: "string \<Rightarrow> string \<Rightarrow> bool" where
  "isPrefixOf p s = (take (length p) s = p)"

text \<open>
  The nine signed URL candidates, in the order of the loop over the delivery types;
  \<open>getSignedDocumentUrl\<close> is the blob store's signer, given the public id, the resource
  type, the delivery type and the format.
\<close>

definition mkSignedCandidates ::
  "(string \<Rightarrow> string \<Rightarrow> string \<Rightarrow> string option \<Rightarrow> string) \<Rightarrow> string \<Rightarrow> string list" where
  "mkSignedCandidates getSignedDocumentUrl publicId =
     concat (map (\<lambda>deliveryType.
                    [getSignedDocumentUrl publicId ''raw'' deliveryType (Some ''pdf''),
                     getSignedDocumentUrl publicId ''raw'' deliveryType None,
                     getSignedDocumentUrl publicId ''image'' deliveryType None])
               [''upload'', ''authenticated'', ''private''])"

text \<open>
  \<open>GET /api/documents/view\<close>. \<open>fetchUpstream\<close> is the server-side fetch of a URL: the
  content type and the bytes, \<open>None\<close> when the fetch fails. A 200 response streams the
  bytes; a 302 response redirects to a signed URL.
\<close>

definition documentViewGET ::
  "tokenEnv \<Rightarrow> int \<Rightarrow> bool \<Rightarrow> (string \<Rightarrow> (string \<times> string) option)
     \<Rightarrow> (string \<Rightarrow> string \<Rightarrow> string \<Rightarrow> string option \<Rightarrow> string)
     \<Rightarrow> string option \<Rightarrow> docState \<Rightarrow> httpResponse \<times> docState" where
  "documentViewGET env now destroyOk fetchUpstream getSignedDocumentUrl tokenArg st =
     (if falsy tokenArg then (jsonError ''Missing token'' 400, st)
      else
        (case verifyDocumentToken env now (the tokenArg) of
           None \<Rightarrow> (jsonError ''Invalid or expired token'' 401, st)
         | Some p \<Rightarrow>
             (case find (\<lambda>doc. doc_id doc = tok_documentId p) (documents (store st)) of
                None \<Rightarrow> (jsonError ''Document not found'' 404, st)
              | Some doc \<Rightarrow>
                  if doc_expiresAt doc \<le> now
                  then (jsonError ''Document expired'' 410,
                        st\<lparr>blobs := deleteExpiredDocument destroyOk (cloudinaryId doc) (blobs st),
                           store := deleteDocumentRow (doc_id doc) (store st)\<rparr>)
                  else
                    (case find (\<lambda>e. em_id e = doc_emergencyId doc) (emergencies (store st)) of
                       None \<Rightarrow> (jsonError ''Emergency not found'' 404, st)
                     | Some em \<Rightarrow>
                         let allowed =
                               (patientId em = tok_userId p \<or>
                                (tok_role p = ''hospital'' \<and> assignedHospitalId em = Some (tok_userId p)) \<or>
                                (tok_role p = ''driver'' \<and> assignedDriverId em = Some (tok_userId p)))
                         in
                         if \<not> allowed then (jsonError ''Unauthorized'' 403, st)
                         else
                           (case fetchUpstream (doc_url doc) of
                              Some upstream \<Rightarrow>
                                (NextResponse 200
                                   (JObj [(''Content-Type'', JStr (fst upstream)),
                                          (''body'', JStr (snd upstream))]),
                                 st)
                            | None \<Rightarrow>
                                (case find (\<lambda>u. u \<noteq> [] \<and> isPrefixOf ''https://'' u)
                                        (mkSignedCandidates getSignedDocumentUrl (cloudinaryId doc)) of
                                   Some u \<Rightarrow> (NextResponse 302 (JObj [(''Location'', JStr u)]), st)
                                 | None \<Rightarrow> (jsonError ''Failed to fetch document'' 502, st)))))))"

section \<open>Status order\<close>

text \<open>
  The order of the statuses, \<open>pending < assigned < en_route < arrived < completed\<close>, and
  what it means for a status to regress: to move down the order, the step from \<open>arrived\<close>
  to \<open>en_route\<close> apart.
\<close>

definition statusRank :: "string \<Rightarrow> nat option" where
  "statusRank s =
     (if s = ''pending'' then Some 0
      else if s = ''assigned'' then Some 1
      else if s = ''en_route'' then Some 2
      else if s = ''arrived'' then Some 3
      else if s = ''completed'' then Some 4
      else None)"

definition regresses :: "string \<Rightarrow> string \<Rightarrow> bool" where
  "regresses s s' =
     (case (statusRank s, statusRank s') of
        (Some a, Some b) \<Rightarrow> b < a \<and> \<not> (s = ''arrived'' \<and> s' = ''en_route'')
      | _ \<Rightarrow> False)"

text \<open>The status of the emergency with id \<open>i\<close> in a store.\<close>

definition statusOf :: "string \<Rightarrow> db \<Rightarrow> string option" where
  "statusOf i d = map_option status (find (\<lambda>e. em_id e = i) (emergencies d))"

text \<open>The statuses before \<open>completed\<close>, and the three named driver actions.\<close>

definition activeStatuses :: "string list" where
  "activeStatuses = [''pending'', ''assigned'', ''en_route'', ''arrived'']"

definition driverActions :: "string list" where
  "driverActions = [''patient_loaded'', ''arrived_hospital'', ''handover_complete'']"

section \<open>Observers of the store and of a response\<close>

text \<open>The row of the emergency with id \<open>i\<close> in a store.\<close>

definition emergencyOf :: "string \<Rightarrow> db \<Rightarrow> emergency option" where
  "emergencyOf i d = find (\<lambda>e. em_id e = i) (emergencies d)"

text \<open>The value under a key of a JSON object, its keys and its values.\<close>

definition jsonField :: "string \<Rightarrow> json \<Rightarrow> json option" where
  "jsonField k j = (case j of JObj kvs \<Rightarrow> map_of kvs k | _ \<Rightarrow> None)"

definition jsonKeys :: "json \<Rightarrow> string list" where
  "jsonKeys j = (case j of JObj kvs \<Rightarrow> map fst kvs | _ \<Rightarrow> [])"

definition jsonValues :: "json \<Rightarrow> json list" where
  "jsonValues j = (case j of JObj kvs \<Rightarrow> map snd kvs | _ \<Rightarrow> [])"

text \<open>
  What tells the outcomes of create apart in a response: the status code and the
  \<open>ambulanceDispatched\<close>, \<open>message\<close> and \<open>error\<close> fields.
\<close>

definition sosOutcome :: "httpResponse \<Rightarrow> nat \<times> json option \<times> json option \<times> json option" where
  "sosOutcome r =
     (httpStatus r, jsonField ''ambulanceDispatched'' (body r), jsonField ''message'' (body r),
      jsonField ''error'' (body r))"

text \<open>
  The facts of the store that decide the outcome of create: there is an active hospital;
  there is one with a location; the license of the nearest located hospital (\<open>None\<close>
  when it has none on file); there is an active driver a license query matches.
\<close>

definition hasActiveHospital :: "db \<Rightarrow> bool" where
  "hasActiveHospital d = list_ex (\<lambda>u. role u = Hospital \<and> isActive u) (users d)"

definition hasLocatedHospital :: "db \<Rightarrow> bool" where
  "hasLocatedHospital d = list_ex hospitalCandidate (users d)"

definition nearestLicense :: "real \<Rightarrow> real \<Rightarrow> db \<Rightarrow> string option" where
  "nearestLicense lat lng d =
     (case findNearestHospitals lat lng 5 d of [] \<Rightarrow> None | ah # _ \<Rightarrow> orNull (licenseNumber (rh_user ah)))"

definition hasMatchingDriver :: "string option \<Rightarrow> db \<Rightarrow> bool" where
  "hasMatchingDriver lic d = list_ex (driverCandidate lic) (users d)"

text \<open>
  The invariant of claim C3 on an emergency: if a driver is assigned, a hospital is
  assigned and both users exist with equal \<open>licenseNumber\<close>. \<open>driverMatches\<close> says that
  the assigned driver, if any, has the license of the user \<open>h\<close>.
\<close>

definition assignmentInvariant :: "db \<Rightarrow> emergency \<Rightarrow> bool" where
  "assignmentInvariant d e =
     (case assignedDriverId e of
        None \<Rightarrow> True
      | Some driverId \<Rightarrow>
          (case assignedHospitalId e of
             None \<Rightarrow> False
           | Some hospitalId \<Rightarrow>
               (case (findUser (Some driverId) d, findUser (Some hospitalId) d) of
                  (Some dr, Some h) \<Rightarrow> licenseNumber dr = licenseNumber h
                | _ \<Rightarrow> False)))"

definition driverMatches :: "db \<Rightarrow> emergency \<Rightarrow> user \<Rightarrow> bool" where
  "driverMatches d e h =
     (case assignedDriverId e of
        None \<Rightarrow> True
      | Some driverId \<Rightarrow>
          (case findUser (Some driverId) d of
             None \<Rightarrow> False
           | Some dr \<Rightarrow> licenseNumber dr = licenseNumber h))"

text \<open>The keys of the 201 response of create after \<open>sosId\<close> and \<open>ambulanceDispatched\<close>.\<close>

definition dispatchedKeys :: "string list" where
  "dispatchedKeys = [''eta'', ''distanceKm'', ''hospitalAssigned'', ''hospitalLicenseNumber'',
     ''hospitalLocation'', ''hospital'', ''driverId'', ''driverEmail'', ''driverName'',
     ''severityScore'', ''priority'']"

text \<open>
  The payload a token carries (the decoded part before the first dot), whether or not
  its signature is valid; and the metadata row of a document id.
\<close>

definition tokenPayload :: "tokenEnv \<Rightarrow> string \<Rightarrow> documentTokenPayload option" where
  "tokenPayload env token =
     (case splitChar CHR ''.'' token of
        payloadB64 # _ \<Rightarrow> jsonParse env (base64urlToBuffer env payloadB64)
      | [] \<Rightarrow> None)"

definition documentOf :: "string \<Rightarrow> docState \<Rightarrow> medicalDocument option" where
  "documentOf i st = find (\<lambda>doc. doc_id doc = i) (documents (store st))"

section \<open>Example data\<close>

text \<open>A small store used to run the handlers on concrete requests.\<close>

definition mkUser ::
  "string \<Rightarrow> requestUserRole \<Rightarrow> string option \<Rightarrow> real option \<Rightarrow> real option \<Rightarrow> int \<Rightarrow> user" where
  "mkUser uid r lic la lo t =
     \<lparr>userId = uid, role = r, isActive = True, userName = uid, userEmail = uid @ ''@example.org'',
      userPhone = ''100'', vehiclePlate = None, licenseNumber = lic, userAddress = None,
      locationLat = la, locationLng = lo, userCreatedAt = t\<rparr>"

definition exHospital1 :: user where
  "exHospital1 = mkUser ''h1'' Hospital (Some ''H1'') (Some 0) (Some 0) 1"

definition exHospital2 :: user where
  "exHospital2 = mkUser ''h2'' Hospital (Some ''H2'') (Some 0) (Some 0) 2"

definition exDriver1 :: user where
  "exDriver1 = mkUser ''dr1'' Driver (Some ''H1'') (Some 0) (Some 0) 3"

definition exPatient1 :: user where
  "exPatient1 = mkUser ''p1'' Patient None None None 4"

text \<open>
  Emergency \<open>e1\<close> of patient \<open>p1\<close> at (0, 0), assigned to hospital \<open>h1\<close> and driver
  \<open>dr1\<close>, whose last position (0, 0) was written at time 1000000.
\<close>

definition exEmergency :: "string \<Rightarrow> emergency" where
  "exEmergency st =
     \<lparr>em_id = ''e1'', status = st, patientId = ''p1'', patientLat = 0, patientLng = 0,
      address = ''Main Street'', symptoms = None, severityScore = Some 50, aiAssessment = None,
      assignedHospitalId = Some ''h1'', assignedDriverId = Some ''dr1'',
      driverLat = Some 0, driverLng = Some 0, driverLastLocationUpdate = Some 1000000,
      distanceKm = Some 0, etaMinutes = Some 0,
      triggeredAt = 900000, acceptedAt = None, arrivedAt = None, completedAt = None,
      assignedBedType = None, hospitalNotes = None\<rparr>"

definition exDb :: "string \<Rightarrow> db" where
  "exDb st = \<lparr>users = [exHospital1, exHospital2, exDriver1, exPatient1],
              emergencies = [exEmergency st], documents = []\<rparr>"

definition ruPatient1 :: requestUser where
  "ruPatient1 = \<lparr>ru_id = ''p1'', ru_role = Patient\<rparr>"

definition ruDriver1 :: requestUser where
  "ruDriver1 = \<lparr>ru_id = ''dr1'', ru_role = Driver\<rparr>"

definition ruHospital1 :: requestUser where
  "ruHospital1 = \<lparr>ru_id = ''h1'', ru_role = Hospital\<rparr>"

definition ruHospital2 :: requestUser where
  "ruHospital2 = \<lparr>ru_id = ''h2'', ru_role = Hospital\<rparr>"

text \<open>The store after the driver's assignment to \<open>e1\<close> is revoked.\<close>

definition exDbRevoked :: db where
  "exDbRevoked = (exDb ''en_route'')\<lparr>emergencies := [(exEmergency ''en_route'')\<lparr>assignedDriverId := None\<rparr>]\<rparr>"

text \<open>
  More users: a located hospital without a license, a licensed hospital without a
  location and a driver of its license; a store of users only; a create request by \<open>p1\<close>
  at (0, 0) on such a store, with the emergency id \<open>e9\<close> and no symptom analysis.
\<close>

definition exHospitalNoLicense :: user where
  "exHospitalNoLicense = mkUser ''h3'' Hospital None (Some 0) (Some 0) 1"

definition exHospitalNoLocation :: user where
  "exHospitalNoLocation = mkUser ''h4'' Hospital (Some ''H4'') None None 1"

definition exDriver4 :: user where
  "exDriver4 = mkUser ''dr4'' Driver (Some ''H4'') (Some 0) (Some 0) 2"

definition exUsersDb :: "user list \<Rightarrow> db" where
  "exUsersDb us = \<lparr>users = us, emergencies = [], documents = []\<rparr>"

definition exLocation :: locationArg where
  "exLocation = \<lparr>loc_lat = Some 0, loc_lng = Some 0, loc_address = None\<rparr>"

definition exSos :: "user list \<Rightarrow> httpResponse \<times> db" where
  "exSos us = sosPOST (\<lambda>a b. 0) 5000 ''e9'' None (Some ruPatient1) (Some exLocation) None (exUsersDb us)"

text \<open>
  A document of \<open>e1\<close> that expires at time 4500000, and the example store with it.
\<close>

definition exDocument :: medicalDocument where
  "exDocument = \<lparr>doc_id = ''doc1'', doc_url = ''https://blobs.example.org/c1'', cloudinaryId = ''c1'',
                  doc_expiresAt = 4500000, doc_emergencyId = ''e1''\<rparr>"

definition exDbDocs :: "string \<Rightarrow> db" where
  "exDbDocs st = (exDb st)\<lparr>documents := [exDocument]\<rparr>"

text \<open>
  A token environment for running the handler: the HMAC of a message is the key followed
  by the message, the decoder is the identity, and the only payload that parses is \<open>P1\<close>,
  a token of patient \<open>p1\<close> for document \<open>doc1\<close> that expires at second 2000. The store holds
  the document with a given expiry and its blob \<open>c1\<close>.
\<close>

definition exPayload :: documentTokenPayload where
  "exPayload = \<lparr>tok_documentId = ''doc1'', tok_userId = ''p1'', tok_role = ''patient'', tok_exp = 2000\<rparr>"

definition exTokenEnv :: tokenEnv where
  "exTokenEnv = \<lparr>secret = Some ''k'', hmacSha256 = (\<lambda>k m. k @ m), base64urlToBuffer = (\<lambda>x. x),
                  jsonParse = (\<lambda>x. if x = ''P1'' then Some exPayload else None)\<rparr>"

definition exToken :: string where
  "exToken = ''P1.kP1''"

definition exDocState :: "int \<Rightarrow> docState" where
  "exDocState expiry =
     \<lparr>store = (exDb ''arrived'')\<lparr>documents := [exDocument\<lparr>doc_expiresAt := expiry\<rparr>]\<rparr>, blobs = {''c1''}\<rparr>"

definition exFetch :: "string \<Rightarrow> (string \<times> string) option" where
  "exFetch u = Some (''application/pdf'', ''bytes'')"

definition exSign :: "string \<Rightarrow> string \<Rightarrow> string \<Rightarrow> string option \<Rightarrow> string" where
  "exSign publicId resourceType deliveryType format = ''https://blobs.example.org/signed''"

section \<open>Basic facts\<close>

lemma falsy_iff [simp]: "falsy s \<longleftrightarrow> \<not> truthy s"
  by (simp add: falsy_def truthy_def split: option.splits)

lemma find_update_row:
  assumes "\<And>e. em_id (f e) = em_id e"
  shows "find (\<lambda>e. em_id e = i) (map (\<lambda>e. if em_id e = j then f e else e) es)
         = map_option (\<lambda>e. if em_id e = j then f e else e) (find (\<lambda>e. em_id e = i) es)"
  by (induction es) (simp_all add: assms)

lemma set_insertBy: "set (insertBy cmp x xs) = insert x (set xs)"
  by (induction xs) auto

lemma set_sortBy: "set (sortBy cmp xs) = set xs"
  by (induction xs) (simp_all add: sortBy_def set_insertBy)

lemma sortBy_Nil_iff: "sortBy cmp xs = [] \<longleftrightarrow> xs = []"
  using set_sortBy [of cmp xs] by (metis set_empty)

lemma length_insertBy: "length (insertBy cmp x xs) = Suc (length xs)"
  by (induction xs) auto

lemma length_sortBy: "length (sortBy cmp xs) = length xs"
  by (induction xs) (simp_all add: sortBy_def length_insertBy)

lemma calculateETA60_0: "calculateETA60 0 = 0"
  by (simp add: calculateETA60_def calculateETA_def)

text \<open>The distance of a point to itself is 0.\<close>

lemma calculateDistance_same: "calculateDistance la lo la lo = 0"
  by (simp add: calculateDistance_def haversineKm_def atan2_def mathRound_def)

text \<open>Along a meridian the unrounded distance is the arc length of the latitude difference.\<close>

lemma haversine_meridian:
  assumes "\<bar>(lat2 - lat1) * pi / 180\<bar> < pi"
  shows "haversineKm lat1 lng lat2 lng = 6371 * \<bar>(lat2 - lat1) * pi / 180\<bar>"
proof -
  define x where "x = (lat2 - lat1) * pi / 180 / 2"
  have xb: "\<bar>x\<bar> < pi / 2" using assms by (simp add: x_def)
  have cpos: "0 < cos x" using xb by (intro cos_gt_zero_pi) (auto simp: abs_less_iff)
  have a: "sin x * sin x = (sin x)\<^sup>2" by (simp add: power2_eq_square)
  have s1: "sqrt ((sin x)\<^sup>2) = \<bar>sin x\<bar>" by simp
  have "1 - (sin x)\<^sup>2 = (cos x)\<^sup>2" by (simp add: cos_squared_eq)
  then have s2: "sqrt (1 - (sin x)\<^sup>2) = cos x" using cpos by simp
  have t: "\<bar>sin x\<bar> / cos x = tan \<bar>x\<bar>"
  proof (cases "0 \<le> x")
    case True
    then have "0 \<le> sin x" using xb by (intro sin_ge_zero) (auto simp: abs_less_iff)
    then show ?thesis using True by (simp add: tan_def)
  next
    case False
    then have "0 \<le> sin (- x)" using xb by (intro sin_ge_zero) (auto simp: abs_less_iff)
    then have "sin x \<le> 0" by simp
    then show ?thesis using False by (simp add: tan_def)
  qed
  have at: "arctan (tan \<bar>x\<bar>) = \<bar>x\<bar>" using xb by (intro arctan_tan) auto
  have r: "atan2 (sqrt ((sin x)\<^sup>2)) (sqrt (1 - (sin x)\<^sup>2)) = \<bar>x\<bar>"
    unfolding s1 s2 using cpos by (simp add: atan2_def t at)
  have "haversineKm lat1 lng lat2 lng
          = 6371 * (2 * atan2 (sqrt (sin x * sin x)) (sqrt (1 - sin x * sin x)))"
    by (simp add: haversineKm_def Let_def x_def)
  also have "\<dots> = 6371 * (2 * \<bar>x\<bar>)" unfolding a r ..
  also have "\<dots> = 6371 * \<bar>(lat2 - lat1) * pi / 180\<bar>" by (simp add: x_def)
  finally show ?thesis .
qed

text \<open>
  A move of 0.0003 degrees of latitude (about 33 metres) is more than 20 metres, and
  \<open>calculateDistance\<close>, which rounds to a tenth of a kilometre, gives 0 for it.
\<close>

lemma moved_33m_raw: "haversineKm (3 / 10000) 0 0 0 = 6371 * (3 / 10000 * pi / 180)"
proof -
  have "\<bar>(0 - 3 / 10000) * pi / 180\<bar> < pi" using pi_gt_zero by simp
  from haversine_meridian [OF this, of 0] show ?thesis by simp
qed

lemma moved_33m_more_than_20m: "haversineKm (3 / 10000) 0 0 0 > 2 / 100"
  unfolding moved_33m_raw using pi_ge_two by simp

lemma moved_33m_rounds_to_0: "calculateDistance (3 / 10000) 0 0 0 = 0"
proof -
  have lo: "0 \<le> 6371 * (3 / 10000 * pi / 180) * 10 + 1 / 2" using pi_gt_zero by simp
  have hi: "6371 * (3 / 10000 * pi / 180) * 10 + 1 / 2 < 1" using pi_less_4 by simp
  have "\<lfloor>6371 * (3 / 10000 * pi / 180) * 10 + 1 / 2\<rfloor> = 0"
    using lo hi by (simp add: floor_eq_iff)
  then show ?thesis
    by (simp add: calculateDistance_def mathRound_def moved_33m_raw)
qed

text \<open>
  The throttle's test \<open>movedKm < 0.02\<close> on the rounded distance holds exactly when the
  unrounded distance is under 0.05 km.
\<close>

lemma movedLittle_iff:
  "calculateDistance la lo la' lo' < 2 / 100 \<longleftrightarrow> haversineKm la lo la' lo' < 5 / 100"
proof -
  define n where "n = \<lfloor>haversineKm la lo la' lo' * 10 + 1 / 2\<rfloor>"
  have "calculateDistance la lo la' lo' < 2 / 100 \<longleftrightarrow> real_of_int n < 1 / 5"
    unfolding calculateDistance_def mathRound_def n_def [symmetric] by (simp add: field_simps)
  also have "\<dots> \<longleftrightarrow> n < 1"
  proof
    assume "real_of_int n < 1 / 5"
    then have "real_of_int n < 1" by simp
    then show "n < 1" by linarith
  next
    assume "n < 1"
    then have "n \<le> 0" by simp
    then have "real_of_int n \<le> 0" by simp
    then show "real_of_int n < 1 / 5" by simp
  qed
  also have "\<dots> \<longleftrightarrow> haversineKm la lo la' lo' * 10 + 1 / 2 < 1"
    unfolding n_def by (simp add: floor_less_iff)
  also have "\<dots> \<longleftrightarrow> haversineKm la lo la' lo' < 5 / 100" by auto
  finally show ?thesis .
qed

lemma statusOf_updateEmergency:
  assumes "\<And>e. em_id (f e) = em_id e"
  shows "statusOf i (updateEmergency j f d)
         = map_option (\<lambda>e. status (if em_id e = j then f e else e)) (find (\<lambda>e. em_id e = i) (emergencies d))"
  by (simp add: statusOf_def updateEmergency_def find_update_row [of f, OF assms] option.map_comp comp_def)

lemma em_id_driverStatusData: "em_id (driverStatusData now statusArg action e) = em_id e"
  by (simp add: driverStatusData_def)

lemma em_id_hospitalStatusData: "em_id (hospitalStatusData now st bed notesArg e) = em_id e"
  by (simp add: hospitalStatusData_def Let_def)

lemma not_regresses_refl: "\<not> regresses s s"
  by (simp add: regresses_def statusRank_def)

lemma regresses_forward:
  assumes "s \<in> set activeStatuses" "s' = ''en_route'' \<or> s' = ''arrived'' \<or> s' = ''completed''"
  shows "\<not> regresses s s'"
proof -
  from assms(1) have "s = ''pending'' \<or> s = ''assigned'' \<or> s = ''en_route'' \<or> s = ''arrived''"
    by (simp add: activeStatuses_def)
  then show ?thesis
    using assms(2) by (elim disjE) (simp_all add: regresses_def statusRank_def)
qed

lemma driverAction_status:
  assumes "a \<in> set driverActions"
  shows "status (driverStatusData now statusArg (Some a) e) = ''en_route''
         \<or> status (driverStatusData now statusArg (Some a) e) = ''arrived''
         \<or> status (driverStatusData now statusArg (Some a) e) = ''completed''"
proof -
  from assms have "a = ''patient_loaded'' \<or> a = ''arrived_hospital'' \<or> a = ''handover_complete''"
    by (simp add: driverActions_def)
  then show ?thesis
    by (elim disjE) (simp_all add: driverStatusData_def)
qed

lemma driverAction_no_regress:
  assumes "status e \<in> set activeStatuses" "a \<in> set driverActions"
  shows "\<not> regresses (status e) (status (driverStatusData now statusArg (Some a) e))"
  using regresses_forward [OF assms(1) driverAction_status [OF assms(2)]] .

lemma em_id_driverLocationData: "em_id (driverLocationData la lo now dk eta ns e) = em_id e"
  by (simp add: driverLocationData_def)

lemma em_id_acceptData: "em_id (acceptData h now e) = em_id e"
  by (simp add: acceptData_def)

lemma driverLocationPATCH_store:
  "snd (driverLocationPATCH now reqUser emergencyIdArg statusArg action d) = d
   \<or> (\<exists>j. snd (driverLocationPATCH now reqUser emergencyIdArg statusArg action d)
            = updateEmergency j (driverStatusData now statusArg action) d)"
  by (simp add: driverLocationPATCH_def Let_def split: option.splits) blast

lemma driverLocationPOST_store:
  "snd (driverLocationPOST now reqUser emergencyIdArg latitudeArg longitudeArg d) = d
   \<or> (\<exists>j la lo dk eta ns. (ns = ''arrived'' \<or> ns = ''en_route'')
          \<and> snd (driverLocationPOST now reqUser emergencyIdArg latitudeArg longitudeArg d)
            = updateEmergency j (driverLocationData la lo now dk eta ns) d)"
  by (simp add: driverLocationPOST_def Let_def split: option.splits) blast

lemma hospitalAcceptPOST_store:
  "snd (hospitalAcceptPOST now reqUser emergencyIdArg d) = d
   \<or> (\<exists>j h. snd (hospitalAcceptPOST now reqUser emergencyIdArg d) = updateEmergency j (acceptData h now) d)"
  by (simp add: hospitalAcceptPOST_def Let_def split: option.splits) blast

lemma hospitalStatusPUT_status:
  assumes "ru_role ru = Hospital" "i \<noteq> []" "st \<in> set validStatuses" "statusOf i d = Some s"
  shows "statusOf i (snd (hospitalStatusPUT now (Some ru) (Some i) (Some st) bedType notesArg d)) = Some st"
proof -
  obtain em where em: "find (\<lambda>e. em_id e = i) (emergencies d) = Some em"
    using assms(4) by (auto simp: statusOf_def)
  have st: "st \<noteq> []" using assms(3) by (auto simp: validStatuses_def)
  have "snd (hospitalStatusPUT now (Some ru) (Some i) (Some st) bedType notesArg d)
          = updateEmergency i (hospitalStatusData now st bedType notesArg) d"
    using assms(1-3) em st by (simp add: hospitalStatusPUT_def Let_def truthy_def)
  moreover have "status (hospitalStatusData now st bedType notesArg em) = st"
    by (simp add: hospitalStatusData_def Let_def)
  moreover have "em_id em = i" using em by (auto dest: find_Some_iff [THEN iffD1])
  ultimately show ?thesis
    using em by (simp add: statusOf_updateEmergency em_id_hospitalStatusData)
qed

lemma hospitalAcceptPOST_status:
  assumes "ru_role ru = Hospital" "i \<noteq> []" "statusOf i d = Some s"
  shows "statusOf i (snd (hospitalAcceptPOST now (Some ru) (Some i) d)) = Some ''assigned''"
proof -
  obtain em where em: "find (\<lambda>e. em_id e = i) (emergencies d) = Some em"
    using assms(3) by (auto simp: statusOf_def)
  have "snd (hospitalAcceptPOST now (Some ru) (Some i) d) = updateEmergency i (acceptData (ru_id ru) now) d"
    using assms(1,2) em by (simp add: hospitalAcceptPOST_def Let_def truthy_def)
  moreover have "em_id em = i" using em by (auto dest: find_Some_iff [THEN iffD1])
  ultimately show ?thesis
    using em by (simp add: statusOf_updateEmergency em_id_acceptData) (simp add: acceptData_def)
qed

lemma step_no_regress:
  assumes "statusOf i d = Some s"
    and "d' = d \<or> (\<exists>j f. d' = updateEmergency j f d \<and> (\<forall>e. em_id (f e) = em_id e)
                        \<and> (\<forall>e. status e = s \<longrightarrow> \<not> regresses s (status (f e))))"
  shows "\<exists>s'. statusOf i d' = Some s' \<and> \<not> regresses s s'"
proof -
  obtain em where em: "find (\<lambda>e. em_id e = i) (emergencies d) = Some em" "status em = s"
    using assms(1) by (auto simp: statusOf_def)
  from assms(2) show ?thesis
  proof
    assume "d' = d"
    then show ?thesis using assms(1) by (simp add: not_regresses_refl)
  next
    assume "\<exists>j f. d' = updateEmergency j f d \<and> (\<forall>e. em_id (f e) = em_id e)
                        \<and> (\<forall>e. status e = s \<longrightarrow> \<not> regresses s (status (f e)))"
    then obtain j f where jf: "d' = updateEmergency j f d" "\<And>e. em_id (f e) = em_id e"
      "\<And>e. status e = s \<Longrightarrow> \<not> regresses s (status (f e))" by blast
    show ?thesis
      unfolding jf(1) using em jf(3) [of em]
      by (simp add: statusOf_updateEmergency [of f, OF jf(2)] not_regresses_refl)
  qed
qed

lemmas exSos_simps =
  exSos_def sosPOST_def exUsersDb_def exLocation_def ruPatient1_def invalidLocation_def Let_def
  insertEmergency_def updateEmergency_def createdEmergency_def hospitalOnlyData_def dispatchedData_def
  findNearestHospitals_def findNearestAmbulances_def fallbackHospitalOf_def sortBy_def signOf_def
  ambulanceCompare_def orNull_def truthy_def mkUser_def calculateDistance_same calculateETA60_0
  hospitalCandidate_def rankHospital_def driverCandidate_def rankDriver_def
  exHospital1_def exHospital2_def exDriver1_def exPatient1_def exHospitalNoLicense_def
  exHospitalNoLocation_def exDriver4_def

lemma findNearestHospitals_emergencies [simp]:
  "findNearestHospitals la lo n (insertEmergency c d) = findNearestHospitals la lo n d"
  by (simp add: findNearestHospitals_def insertEmergency_def)

lemma findNearestAmbulances_emergencies [simp]:
  "findNearestAmbulances lc la lo n lic (insertEmergency c d) = findNearestAmbulances lc la lo n lic d"
  by (simp add: findNearestAmbulances_def insertEmergency_def)

lemma fallbackHospitalOf_emergencies [simp]:
  "fallbackHospitalOf (insertEmergency c d) = fallbackHospitalOf d"
  by (simp add: fallbackHospitalOf_def insertEmergency_def)

text \<open>The five ways create ends for a valid request.\<close>

lemma sosPOST_branches:
  assumes "ru_role ru = Patient" "loc_lat l = Some lat" "loc_lng l = Some lng"
    and "d1 = insertEmergency (createdEmergency newId (ru_id ru) now l symptomsArg) d"
    and "r = sosPOST localeCompare now newId aiResult (Some ru) (Some l) symptomsArg d"
  shows "\<exists>sev ass.
      (findNearestHospitals lat lng 5 d = [] \<and> fallbackHospitalOf d = None
         \<and> r = (jsonError ''No hospitals available'' 503, d1))
    \<or> (\<exists>fh. findNearestHospitals lat lng 5 d = [] \<and> fallbackHospitalOf d = Some fh
         \<and> r = (NextResponse 202 (hospitalOnlyJson newId msgFallback fh (orNull (licenseNumber fh))),
                updateEmergency newId (hospitalOnlyData (userId fh) sev ass) d1))
    \<or> (\<exists>ah rest. findNearestHospitals lat lng 5 d = ah # rest
         \<and> orNull (licenseNumber (rh_user ah)) = None
         \<and> r = (NextResponse 202 (hospitalOnlyJson newId msgNoLicense (rh_user ah) None),
                updateEmergency newId (hospitalOnlyData (userId (rh_user ah)) sev ass) d1))
    \<or> (\<exists>ah rest lic. findNearestHospitals lat lng 5 d = ah # rest
         \<and> orNull (licenseNumber (rh_user ah)) = Some lic
         \<and> findNearestAmbulances localeCompare lat lng 3 (Some lic) d = []
         \<and> r = (NextResponse 202 (hospitalOnlyJson newId msgNoAmbulance (rh_user ah) (Some lic)),
                updateEmergency newId (hospitalOnlyData (userId (rh_user ah)) sev ass) d1))
    \<or> (\<exists>ah rest lic amb rest2 js etaV distV. findNearestHospitals lat lng 5 d = ah # rest
         \<and> orNull (licenseNumber (rh_user ah)) = Some lic
         \<and> findNearestAmbulances localeCompare lat lng 3 (Some lic) d = amb # rest2
         \<and> map fst js = dispatchedKeys
         \<and> r = (NextResponse 201
                  (JObj ((''sosId'', JStr newId) # (''ambulanceDispatched'', JBool True) # js)),
                updateEmergency newId
                  (dispatchedData (userId (rh_user ah)) (userId (rd_user amb)) sev ass etaV distV) d1))"
    (is "\<exists>sev ass. ?P sev ass")
proof -
  define sev where "sev = (case aiResult of Some r \<Rightarrow> fst r | None \<Rightarrow> (50::int))"
  define ass where "ass = (case aiResult of Some r \<Rightarrow> snd r | None \<Rightarrow> ''Symptoms received, awaiting analysis'')"
  note [simp] = sev_def [symmetric] ass_def [symmetric]
  have v: "\<not> invalidLocation (Some l)" using assms(2,3) by (simp add: invalidLocation_def)
  show ?thesis
  proof (intro exI [of _ sev] exI [of _ ass], cases "findNearestHospitals lat lng 5 d")
    case Nil
    show "?P sev ass"
    proof (cases "fallbackHospitalOf d")
      case None
      then show ?thesis using Nil assms v by (simp add: sosPOST_def Let_def)
    next
      case (Some fh)
      then show ?thesis using Nil assms v by (simp add: sosPOST_def Let_def)
    qed
  next
    case (Cons ah rest)
    show "?P sev ass"
    proof (cases "orNull (licenseNumber (rh_user ah))")
      case None
      then show ?thesis using Cons assms v by (simp add: sosPOST_def Let_def)
    next
      case (Some lic)
      show ?thesis
      proof (cases "findNearestAmbulances localeCompare lat lng 3 (Some lic) d")
        case Nil
        then show ?thesis using Some Cons assms v by (simp add: sosPOST_def Let_def)
      next
        case (Cons amb rest2)
        then show ?thesis using Some \<open>findNearestHospitals lat lng 5 d = ah # rest\<close> assms v
          by (simp add: sosPOST_def Let_def dispatchedKeys_def) blast
      qed
    qed
  qed
qed

lemma em_id_hospitalOnlyData: "em_id (hospitalOnlyData h sev ass e) = em_id e"
  by (simp add: hospitalOnlyData_def)

lemma em_id_dispatchedData: "em_id (dispatchedData h dr sev ass etaV distV e) = em_id e"
  by (simp add: dispatchedData_def)

lemma em_id_createdEmergency: "em_id (createdEmergency newId pid now l sy) = newId"
  by (simp add: createdEmergency_def)

lemma find_fresh_append:
  assumes "i \<notin> em_id ` set es" "em_id c = i"
  shows "find (\<lambda>e. em_id e = i) (es @ [c]) = Some c"
  using assms by (induction es) auto

lemma emergencyOf_inserted:
  assumes "i \<notin> em_id ` set (emergencies d)" "em_id c = i"
  shows "emergencyOf i (insertEmergency c d) = Some c"
  using find_fresh_append [OF assms] by (simp add: emergencyOf_def insertEmergency_def)

lemma emergencyOf_updateEmergency:
  assumes "\<And>e. em_id (f e) = em_id e"
  shows "emergencyOf i (updateEmergency j f d)
         = map_option (\<lambda>e. if em_id e = j then f e else e) (emergencyOf i d)"
  by (simp add: emergencyOf_def updateEmergency_def find_update_row [of f, OF assms])

lemma emergencyOf_created:
  assumes "i \<notin> em_id ` set (emergencies d)" "em_id c = i" "\<And>e. em_id (f e) = em_id e"
  shows "emergencyOf i (updateEmergency i f (insertEmergency c d)) = Some (f c)"
  using assms(2) by (simp add: emergencyOf_updateEmergency [of f, OF assms(3)] emergencyOf_inserted [OF assms(1,2)])

lemma take_Nil_iff: "0 < n \<Longrightarrow> take n xs = [] \<longleftrightarrow> xs = []"
  by (cases xs) auto

lemma filter_Nil_list_ex: "filter P xs = [] \<longleftrightarrow> \<not> list_ex P xs"
  by (induction xs) auto

lemma findNearestHospitals_Nil_iff:
  "findNearestHospitals lat lng 5 d = [] \<longleftrightarrow> \<not> hasLocatedHospital d"
  by (simp add: findNearestHospitals_def Let_def take_Nil_iff sortBy_Nil_iff hasLocatedHospital_def
      filter_Nil_list_ex)

lemma fallbackHospitalOf_None_iff: "fallbackHospitalOf d = None \<longleftrightarrow> \<not> hasActiveHospital d"
proof -
  have "fallbackHospitalOf d = None \<longleftrightarrow>
        sortBy (\<lambda>a b. if userCreatedAt a < userCreatedAt b then -1
                       else if userCreatedAt a = userCreatedAt b then 0 else 1)
          (filter (\<lambda>u. role u = Hospital \<and> isActive u) (users d)) = []"
    by (simp add: fallbackHospitalOf_def split: list.splits)
  then show ?thesis
    by (simp add: sortBy_Nil_iff filter_Nil_list_ex hasActiveHospital_def)
qed

lemma findNearestAmbulances_Nil_iff:
  "findNearestAmbulances lc lat lng 3 lic d = [] \<longleftrightarrow> \<not> hasMatchingDriver lic d"
  by (simp add: findNearestAmbulances_def Let_def take_Nil_iff sortBy_Nil_iff hasMatchingDriver_def
      filter_Nil_list_ex)

lemma located_imp_active: "hasLocatedHospital d \<Longrightarrow> hasActiveHospital d"
  by (auto simp: hasLocatedHospital_def hasActiveHospital_def list_ex_iff hospitalCandidate_def)

lemma orNull_Some: "orNull x = Some lic \<Longrightarrow> lic \<noteq> [] \<and> x = Some lic"
  by (auto simp: orNull_def truthy_def split: if_splits option.splits)

lemma msgs_distinct: "distinct [msgFallback, msgNoLicense, msgNoAmbulance]"
  by (simp add: msgFallback_def msgNoLicense_def msgNoAmbulance_def)

lemma users_updateEmergency [simp]: "users (updateEmergency j f d) = users d"
  by (simp add: updateEmergency_def)

lemma users_insertEmergency [simp]: "users (insertEmergency c d) = users d"
  by (simp add: insertEmergency_def)

lemma findUser_updateEmergency [simp]: "findUser u (updateEmergency j f d) = findUser u d"
  by (simp add: findUser_def split: option.splits)

lemma findUser_insertEmergency [simp]: "findUser u (insertEmergency c d) = findUser u d"
  by (simp add: findUser_def split: option.splits)

lemma find_distinct_user:
  assumes "distinct (map userId us)" "u \<in> set us"
  shows "find (\<lambda>x. userId x = userId u) us = Some u"
  using assms by (induction us) (auto simp: image_iff)

lemma findUser_member:
  assumes "distinct (map userId (users d))" "u \<in> set (users d)"
  shows "findUser (Some (userId u)) d = Some u"
  using find_distinct_user [OF assms] by (simp add: findUser_def)

lemma findNearestHospitals_member:
  assumes "ah \<in> set (findNearestHospitals la lo n d)"
  shows "rh_user ah \<in> set (users d)"
proof -
  from assms have "ah \<in> set (take n (sortBy (\<lambda>a b. signOf (rh_distance a - rh_distance b))
                        (map (rankHospital la lo) (filter hospitalCandidate (users d)))))"
    by (simp add: findNearestHospitals_def Let_def)
  then have "ah \<in> set (sortBy (\<lambda>a b. signOf (rh_distance a - rh_distance b))
                        (map (rankHospital la lo) (filter hospitalCandidate (users d))))"
    by (rule in_set_takeD)
  then have "ah \<in> rankHospital la lo ` set (filter hospitalCandidate (users d))"
    by (simp only: set_sortBy set_map)
  then obtain h where "h \<in> set (users d)" "ah = rankHospital la lo h" by auto
  then show ?thesis by (simp add: rankHospital_def)
qed

lemma findNearestAmbulances_member:
  assumes "amb \<in> set (findNearestAmbulances lc la lo n (Some lic) d)" "lic \<noteq> []"
  shows "rd_user amb \<in> set (users d) \<and> licenseNumber (rd_user amb) = Some lic"
proof -
  from assms(1) have "amb \<in> set (take n (sortBy (ambulanceCompare lc)
                        (map (rankDriver la lo) (filter (driverCandidate (Some lic)) (users d)))))"
    by (simp add: findNearestAmbulances_def Let_def)
  then have "amb \<in> set (sortBy (ambulanceCompare lc)
                        (map (rankDriver la lo) (filter (driverCandidate (Some lic)) (users d))))"
    by (rule in_set_takeD)
  then have "amb \<in> rankDriver la lo ` set (filter (driverCandidate (Some lic)) (users d))"
    by (simp only: set_sortBy set_map)
  then obtain dr where dr: "dr \<in> set (users d)" "driverCandidate (Some lic) dr" "amb = rankDriver la lo dr"
    by auto
  have "rd_user amb = dr" using dr(3) by (simp add: rankDriver_def Let_def)
  moreover have "licenseNumber dr = Some lic"
    using dr(2) assms(2) by (simp add: driverCandidate_def truthy_def)
  ultimately show ?thesis using dr(1) by simp
qed

lemma create_establishes_invariant:
  assumes "distinct (map userId (users d))"
    and "ru_role ru = Patient" "loc_lat l = Some lat" "loc_lng l = Some lng"
    and "newId \<notin> em_id ` set (emergencies d)"
    and "r = sosPOST localeCompare now newId aiResult (Some ru) (Some l) symptomsArg d"
  shows "\<exists>em'. emergencyOf newId (snd r) = Some em' \<and> assignmentInvariant (snd r) em'"
proof -
  define c where "c = createdEmergency newId (ru_id ru) now l symptomsArg"
  define d1 where "d1 = insertEmergency c d"
  have cid: "em_id c = newId" by (simp add: c_def em_id_createdEmergency)
  have c0: "assignedDriverId c = None" by (simp add: c_def createdEmergency_def)
  have ins: "emergencyOf newId d1 = Some c"
    unfolding d1_def by (rule emergencyOf_inserted [OF assms(5) cid])
  have upd: "\<And>f. (\<And>e. em_id (f e) = em_id e) \<Longrightarrow> emergencyOf newId (updateEmergency newId f d1) = Some (f c)"
    unfolding d1_def by (rule emergencyOf_created [OF assms(5) cid])
  from sosPOST_branches [OF assms(2-4) d1_def [unfolded c_def] assms(6)]
  obtain sev ass where br:
    "(r = (jsonError ''No hospitals available'' 503, d1))
    \<or> (\<exists>h m lic. r = (NextResponse 202 (hospitalOnlyJson newId m h lic),
                updateEmergency newId (hospitalOnlyData (userId h) sev ass) d1))
    \<or> (\<exists>ah rest lic amb rest2 js etaV distV. findNearestHospitals lat lng 5 d = ah # rest
         \<and> orNull (licenseNumber (rh_user ah)) = Some lic
         \<and> findNearestAmbulances localeCompare lat lng 3 (Some lic) d = amb # rest2
         \<and> r = (NextResponse 201
                  (JObj ((''sosId'', JStr newId) # (''ambulanceDispatched'', JBool True) # js)),
                updateEmergency newId
                  (dispatchedData (userId (rh_user ah)) (userId (rd_user amb)) sev ass etaV distV) d1))"
    by blast
  from br show ?thesis
  proof (elim disjE exE conjE)
    assume "r = (jsonError ''No hospitals available'' 503, d1)"
    then show ?thesis using ins c0 by (simp add: assignmentInvariant_def)
  next
    fix h m lic
    assume "r = (NextResponse 202 (hospitalOnlyJson newId m h lic),
                updateEmergency newId (hospitalOnlyData (userId h) sev ass) d1)"
    then show ?thesis
      using upd [of "hospitalOnlyData (userId h) sev ass", OF em_id_hospitalOnlyData] c0
      by (simp add: assignmentInvariant_def hospitalOnlyData_def)
  next
    fix ah rest lic amb rest2 js etaV distV
    assume a: "findNearestHospitals lat lng 5 d = ah # rest"
      "orNull (licenseNumber (rh_user ah)) = Some lic"
      "findNearestAmbulances localeCompare lat lng 3 (Some lic) d = amb # rest2"
      "r = (NextResponse 201
                  (JObj ((''sosId'', JStr newId) # (''ambulanceDispatched'', JBool True) # js)),
                updateEmergency newId
                  (dispatchedData (userId (rh_user ah)) (userId (rd_user amb)) sev ass etaV distV) d1)"
    have hm: "rh_user ah \<in> set (users d)"
      using findNearestHospitals_member [of ah lat lng 5 d] a(1) by simp
    have hl: "licenseNumber (rh_user ah) = Some lic" "lic \<noteq> []"
      using orNull_Some [OF a(2)] by simp_all
    have dm: "rd_user amb \<in> set (users d) \<and> licenseNumber (rd_user amb) = Some lic"
      using findNearestAmbulances_member [of amb localeCompare lat lng 3 lic d] a(3) hl(2) by simp
    have fh: "findUser (Some (userId (rh_user ah))) d = Some (rh_user ah)"
      by (rule findUser_member [OF assms(1) hm])
    have fd: "findUser (Some (userId (rd_user amb))) d = Some (rd_user amb)"
      using findUser_member [OF assms(1)] dm by simp
    show ?thesis
      using a(4) upd [of "dispatchedData (userId (rh_user ah)) (userId (rd_user amb)) sev ass etaV distV",
          OF em_id_dispatchedData] fh fd hl(1) dm
      by (simp add: assignmentInvariant_def dispatchedData_def d1_def)
  qed
qed

lemma accept_invariant:
  assumes "ru_role hu = Hospital" "i \<noteq> []" "emergencyOf i d = Some em"
    and "findUser (Some (ru_id hu)) d = Some h"
    and "d' = snd (hospitalAcceptPOST now (Some hu) (Some i) d)"
  shows "\<exists>em'. emergencyOf i d' = Some em'
           \<and> assignedHospitalId em' = Some (ru_id hu)
           \<and> assignedDriverId em' = assignedDriverId em
           \<and> (assignmentInvariant d' em' \<longleftrightarrow> driverMatches d em h)"
proof -
  have f: "find (\<lambda>e. em_id e = i) (emergencies d) = Some em"
    using assms(3) by (simp add: emergencyOf_def)
  have d': "d' = updateEmergency i (acceptData (ru_id hu) now) d"
    using assms(1,2,5) f by (simp add: hospitalAcceptPOST_def Let_def truthy_def)
  have "em_id em = i" using f by (auto dest: find_Some_iff [THEN iffD1])
  then have e: "emergencyOf i d' = Some (acceptData (ru_id hu) now em)"
    unfolding d' using assms(3) by (simp add: emergencyOf_updateEmergency [of _, OF em_id_acceptData])
  show ?thesis
    unfolding e using assms(4)
    by (simp add: acceptData_def assignmentInvariant_def driverMatches_def d' split: option.splits)
qed

lemmas exDb_simps =
  exDb_def exEmergency_def mkUser_def exHospital1_def exHospital2_def exDriver1_def exPatient1_def
  ruHospital1_def ruHospital2_def ruDriver1_def ruPatient1_def

lemma set_dedupeByPatient: "set (dedupeByPatient seen xs) \<subseteq> set xs"
  by (induction xs arbitrary: seen) (auto simp: Let_def)

lemma dedupeByPatient_covers:
  assumes "e \<in> set xs" "patientId e \<noteq> []" "patientId e \<notin> set seen"
  shows "patientId e \<in> patientId ` set (dedupeByPatient seen xs)"
  using assms
proof (induction xs arbitrary: seen)
  case Nil
  then show ?case by simp
next
  case (Cons x xs)
  show ?case
  proof (cases "patientId x = patientId e")
    case True
    then show ?thesis using Cons.prems by (simp add: Let_def)
  next
    case False
    then have "e \<in> set xs" using Cons.prems(1) by auto
    then have "patientId e \<in> patientId ` set (dedupeByPatient seen xs)"
      and "patientId e \<in> patientId ` set (dedupeByPatient (patientId x # seen) xs)"
      using Cons.IH [of seen] Cons.IH [of "patientId x # seen"] Cons.prems(2,3) False by auto
    then show ?thesis by (auto simp: Let_def)
  qed
qed

lemma set_feedFindMany:
  "set (feedFindMany now h st limit offset d) \<subseteq> set (filter (feedWhere now h st d) (emergencies d))"
proof -
  have "set (feedFindMany now h st limit offset d)
        \<subseteq> set (sortBy (\<lambda>a b. if triggeredAt a > triggeredAt b then -1
                       else if triggeredAt a = triggeredAt b then 0 else 1)
                 (filter (feedWhere now h st d) (emergencies d)))"
    unfolding feedFindMany_def by (meson set_take_subset set_drop_subset subset_trans)
  then show ?thesis by (simp only: set_sortBy)
qed

lemma set_feedFindMany_whole_page:
  assumes "length (filter (feedWhere now h st d) (emergencies d)) \<le> limit"
  shows "set (feedFindMany now h st limit 0 d) = set (filter (feedWhere now h st d) (emergencies d))"
  using assms by (simp add: feedFindMany_def length_sortBy set_sortBy)

lemma verifyDocumentToken_payload:
  assumes "verifyDocumentToken env now t = Some p"
  shows "tokenPayload env t = Some p \<and> \<not> tok_exp p < now div 1000 \<and> t \<noteq> []"
  using assms
  by (auto simp: verifyDocumentToken_def tokenPayload_def Let_def
      split: list.splits if_splits option.splits)

lemma expired_token_rejected:
  assumes "tokenPayload env t = Some p" "tok_exp p < now div 1000"
  shows "verifyDocumentToken env now t = None"
proof (cases "verifyDocumentToken env now t")
  case None
  then show ?thesis .
next
  case (Some q)
  then show ?thesis using verifyDocumentToken_payload [OF Some] assms by simp
qed

lemma find_deleteDocumentRow:
  "find (\<lambda>doc. doc_id doc = i) (documents (deleteDocumentRow i d)) = None"
  by (simp add: deleteDocumentRow_def find_None_iff)

lemma documentViewGET_served:
  assumes "httpStatus (fst (documentViewGET env now destroyOk fetchUpstream sign tokenArg st)) = 200
           \<or> httpStatus (fst (documentViewGET env now destroyOk fetchUpstream sign tokenArg st)) = 302"
  shows "\<exists>t p doc. tokenArg = Some t \<and> verifyDocumentToken env now t = Some p
            \<and> documentOf (tok_documentId p) st = Some doc \<and> now < doc_expiresAt doc"
  using assms
  by (auto simp: documentViewGET_def documentOf_def jsonError_def Let_def truthy_def
      split: option.splits if_splits)

lemma documentViewGET_expired:
  assumes "verifyDocumentToken env now t = Some p" "documentOf (tok_documentId p) st = Some doc"
    "doc_expiresAt doc \<le> now"
  shows "documentViewGET env now destroyOk fetchUpstream sign (Some t) st
         = (jsonError ''Document expired'' 410,
            st\<lparr>blobs := deleteExpiredDocument destroyOk (cloudinaryId doc) (blobs st),
               store := deleteDocumentRow (tok_documentId p) (store st)\<rparr>)"
proof -
  have t: "truthy (Some t)" using verifyDocumentToken_payload [OF assms(1)] by (simp add: truthy_def)
  have i: "doc_id doc = tok_documentId p"
    using assms(2) by (auto simp: documentOf_def dest: find_Some_iff [THEN iffD1])
  show ?thesis
    using assms t i by (simp add: documentViewGET_def documentOf_def)
qed

lemma documentViewGET_missing:
  assumes "verifyDocumentToken env now t = Some p" "documentOf (tok_documentId p) st = None"
  shows "documentViewGET env now destroyOk fetchUpstream sign (Some t) st
         = (jsonError ''Document not found'' 404, st)"
proof -
  have t: "truthy (Some t)" using verifyDocumentToken_payload [OF assms(1)] by (simp add: truthy_def)
  show ?thesis
    using assms t by (simp add: documentViewGET_def documentOf_def)
qed

lemmas exDoc_simps =
  exTokenEnv_def exToken_def exPayload_def exDocState_def exDocument_def exFetch_def exSign_def
  exDb_def exEmergency_def verifyDocumentToken_def tokenPayload_def documentOf_def truthy_def Let_def

text \<open>An emergency the driver assignment query finds satisfies the invariant of C3.\<close>

lemma driverAssignmentFind_invariant:
  assumes "driverAssignmentFind ru d = Some e"
  shows "e \<in> set (emergencies d) \<and> assignedDriverId e = Some (ru_id ru) \<and> assignmentInvariant d e"
proof -
  from assms obtain driver lic rest where
    dr: "findUser (Some (ru_id ru)) d = Some driver" "orNull (licenseNumber driver) = Some lic"
    and s: "sortBy (\<lambda>a b. if triggeredAt a > triggeredAt b then -1
                                    else if triggeredAt a = triggeredAt b then 0 else 1)
              (filter (driverAssignmentWhere ru lic d) (emergencies d)) = e # rest"
    by (auto simp: driverAssignmentFind_def split: option.splits list.splits)
  have "e \<in> set (sortBy (\<lambda>a b. if triggeredAt a > triggeredAt b then -1
                                    else if triggeredAt a = triggeredAt b then 0 else 1)
              (filter (driverAssignmentWhere ru lic d) (emergencies d)))"
    unfolding s by simp
  then have e: "e \<in> set (emergencies d)" "driverAssignmentWhere ru lic d e"
    by (simp_all only: set_sortBy set_filter mem_Collect_eq)
  have l: "licenseNumber driver = Some lic" using orNull_Some [OF dr(2)] by simp
  show ?thesis
    using e dr(1) l
    by (auto simp: driverAssignmentWhere_def assignmentInvariant_def findUser_def split: option.splits)
qed

section \<open>Claims\<close>

subsection \<open>C1: updates against a completed emergency\<close>

text \<open>
  Claim C1 says that a patient location update or a driver location report against a
  completed emergency changes neither status nor location fields and echoes the terminal
  state. On the completed emergency \<open>e1\<close> the handlers do otherwise: the patient update
  answers \<open>status: "completed"\<close> but has already overwritten the patient's coordinates
  (the status is tested on the row the update returns), and a driver report from the
  patient's position, one second and more after the last one, writes the driver fields and
  sets the status to \<open>arrived\<close>.
\<close>

theorem C1_completed_emergency_is_written:
  "status (exEmergency ''completed'') = ''completed''
   \<and> sosPATCH (Some ruPatient1) (Some ''e1'')
        (Some \<lparr>loc_lat = Some 1, loc_lng = Some 2, loc_address = None\<rparr>) (exDb ''completed'')
      = (NextResponse 200 (JObj [(''success'', JBool True), (''status'', JStr ''completed'')]),
         (exDb ''completed'')\<lparr>emergencies :=
            [(exEmergency ''completed'')\<lparr>patientLat := 1, patientLng := 2\<rparr>]\<rparr>)
   \<and> snd (driverLocationPOST 2000000 (Some ruDriver1) (Some ''e1'') (Some 0) (Some 0) (exDb ''completed''))
      = (exDb ''completed'')\<lparr>emergencies :=
           [(exEmergency ''completed'')\<lparr>driverLastLocationUpdate := Some 2000000, status := ''arrived''\<rparr>]\<rparr>"
  by (simp add: sosPATCH_def driverLocationPOST_def exDb_def exEmergency_def ruPatient1_def ruDriver1_def
      truthy_def invalidLocation_def updateEmergency_def calculateDistance_same calculateETA60_0 Let_def
      patientLocationData_def driverLocationData_def)

subsection \<open>C2: status regressions\<close>

text \<open>
  Claim C2, amended. No handler compares the status it writes with the current one. What
  holds for one operation on an emergency with status \<open>s\<close>: a driver status action
  (\<open>patient_loaded\<close>, \<open>arrived_hospital\<close>, \<open>handover_complete\<close>) or a driver location
  report on an emergency that is not completed never regresses the status (the step from
  \<open>arrived\<close> to \<open>en_route\<close> apart); the hospital's accept does not regress a pending or
  assigned emergency; an accept by a hospital always leaves \<open>assigned\<close>, and the hospital's
  status update leaves whichever of the five statuses it is given.
\<close>

theorem C2_status_steps:
  assumes "statusOf i d = Some s"
  shows "(s \<in> set activeStatuses \<and> a \<in> set driverActions \<longrightarrow>
            (\<exists>s'. statusOf i (snd (driverLocationPATCH now reqUser emergencyIdArg statusArg (Some a) d)) = Some s'
                  \<and> \<not> regresses s s'))
       \<and> (s \<in> set activeStatuses \<longrightarrow>
            (\<exists>s'. statusOf i (snd (driverLocationPOST now reqUser emergencyIdArg latitudeArg longitudeArg d)) = Some s'
                  \<and> \<not> regresses s s'))
       \<and> (s = ''pending'' \<or> s = ''assigned'' \<longrightarrow>
            (\<exists>s'. statusOf i (snd (hospitalAcceptPOST now reqUser emergencyIdArg d)) = Some s'
                  \<and> \<not> regresses s s'))
       \<and> (ru_role ru = Hospital \<and> i \<noteq> [] \<longrightarrow>
            statusOf i (snd (hospitalAcceptPOST now (Some ru) (Some i) d)) = Some ''assigned'')
       \<and> (ru_role ru = Hospital \<and> i \<noteq> [] \<and> st \<in> set validStatuses \<longrightarrow>
            statusOf i (snd (hospitalStatusPUT now (Some ru) (Some i) (Some st) bedType notesArg d)) = Some st)"
proof (intro conjI impI)
  assume h: "s \<in> set activeStatuses \<and> a \<in> set driverActions"
  show "\<exists>s'. statusOf i (snd (driverLocationPATCH now reqUser emergencyIdArg statusArg (Some a) d)) = Some s'
              \<and> \<not> regresses s s'"
  proof (rule step_no_regress [OF assms])
    from driverLocationPATCH_store [of now reqUser emergencyIdArg statusArg "Some a" d]
    show "snd (driverLocationPATCH now reqUser emergencyIdArg statusArg (Some a) d) = d
          \<or> (\<exists>j f. snd (driverLocationPATCH now reqUser emergencyIdArg statusArg (Some a) d)
                      = updateEmergency j f d \<and> (\<forall>e. em_id (f e) = em_id e)
                    \<and> (\<forall>e. status e = s \<longrightarrow> \<not> regresses s (status (f e))))"
      using h driverAction_no_regress [of _ a now statusArg] em_id_driverStatusData
      by (metis (no_types, lifting))
  qed
next
  assume h: "s \<in> set activeStatuses"
  have fwd: "\<And>la lo dk eta ns e. ns = ''arrived'' \<or> ns = ''en_route'' \<Longrightarrow>
               \<not> regresses s (status (driverLocationData la lo now dk eta ns e))"
    using regresses_forward [OF h] by (auto simp: driverLocationData_def)
  show "\<exists>s'. statusOf i (snd (driverLocationPOST now reqUser emergencyIdArg latitudeArg longitudeArg d)) = Some s'
              \<and> \<not> regresses s s'"
  proof (rule step_no_regress [OF assms])
    from driverLocationPOST_store [of now reqUser emergencyIdArg latitudeArg longitudeArg d]
    show "snd (driverLocationPOST now reqUser emergencyIdArg latitudeArg longitudeArg d) = d
          \<or> (\<exists>j f. snd (driverLocationPOST now reqUser emergencyIdArg latitudeArg longitudeArg d)
                      = updateEmergency j f d \<and> (\<forall>e. em_id (f e) = em_id e)
                    \<and> (\<forall>e. status e = s \<longrightarrow> \<not> regresses s (status (f e))))"
      using fwd em_id_driverLocationData by (metis (no_types, lifting))
  qed
next
  assume h: "s = ''pending'' \<or> s = ''assigned''"
  have fwd: "\<And>hid e. \<not> regresses s (status (acceptData hid now e))"
    using h by (auto simp: acceptData_def regresses_def statusRank_def)
  show "\<exists>s'. statusOf i (snd (hospitalAcceptPOST now reqUser emergencyIdArg d)) = Some s' \<and> \<not> regresses s s'"
  proof (rule step_no_regress [OF assms])
    from hospitalAcceptPOST_store [of now reqUser emergencyIdArg d]
    show "snd (hospitalAcceptPOST now reqUser emergencyIdArg d) = d
          \<or> (\<exists>j f. snd (hospitalAcceptPOST now reqUser emergencyIdArg d)
                      = updateEmergency j f d \<and> (\<forall>e. em_id (f e) = em_id e)
                    \<and> (\<forall>e. status e = s \<longrightarrow> \<not> regresses s (status (f e))))"
      using fwd em_id_acceptData by (metis (no_types, lifting))
  qed
next
  assume "ru_role ru = Hospital \<and> i \<noteq> []"
  then show "statusOf i (snd (hospitalAcceptPOST now (Some ru) (Some i) d)) = Some ''assigned''"
    using hospitalAcceptPOST_status [of ru i d s now] assms by simp
next
  assume "ru_role ru = Hospital \<and> i \<noteq> [] \<and> st \<in> set validStatuses"
  then show "statusOf i (snd (hospitalStatusPUT now (Some ru) (Some i) (Some st) bedType notesArg d)) = Some st"
    using hospitalStatusPUT_status [of ru i st d s now bedType notesArg] assms by simp
qed

text \<open>
  On \<open>e1\<close> en route: \<open>handover_complete\<close> completes it, and the hospital's status update
  to \<open>pending\<close> is written.
\<close>

theorem C2_status_steps_witness:
  "statusOf ''e1'' (exDb ''en_route'') = Some ''en_route''
   \<and> (\<exists>s'. statusOf ''e1'' (snd (driverLocationPATCH 5000 (Some ruDriver1) (Some ''e1'') None
                (Some ''handover_complete'') (exDb ''en_route''))) = Some s'
          \<and> \<not> regresses ''en_route'' s')
   \<and> statusOf ''e1'' (snd (driverLocationPATCH 5000 (Some ruDriver1) (Some ''e1'') None
                (Some ''handover_complete'') (exDb ''en_route''))) = Some ''completed''
   \<and> statusOf ''e1'' (snd (hospitalStatusPUT 5000 (Some ruHospital1) (Some ''e1'') (Some ''pending'') None None
                (exDb ''en_route''))) = Some ''pending''"
proof -
  have s: "statusOf ''e1'' (exDb ''en_route'') = Some ''en_route''"
    by (simp add: statusOf_def exDb_def exEmergency_def)
  have a: "''en_route'' \<in> set activeStatuses \<and> ''handover_complete'' \<in> set driverActions"
    by (simp add: activeStatuses_def driverActions_def)
  have h: "ru_role ruHospital1 = Hospital \<and> ''e1'' \<noteq> [] \<and> ''pending'' \<in> set validStatuses"
    by (simp add: ruHospital1_def validStatuses_def)
  have c: "statusOf ''e1'' (snd (driverLocationPATCH 5000 (Some ruDriver1) (Some ''e1'') None
                (Some ''handover_complete'') (exDb ''en_route''))) = Some ''completed''"
    by (simp add: statusOf_def driverLocationPATCH_def Let_def truthy_def ruDriver1_def exDb_def
        exEmergency_def updateEmergency_def driverStatusData_def)
  show ?thesis
    using C2_status_steps [OF s, where a = "''handover_complete''" and now = 5000
        and reqUser = "Some ruDriver1" and emergencyIdArg = "Some ''e1''" and statusArg = None
        and ru = ruHospital1 and st = "''pending''" and bedType = None and notesArg = None] s a h c
    by simp
qed

text \<open>
  Claim C2 as stated fails: the hospital's accept takes the completed \<open>e1\<close> back to
  \<open>assigned\<close>, the hospital's status update takes an arrived \<open>e1\<close> back to \<open>pending\<close>, and
  a driver location report or the driver action \<open>patient_loaded\<close> takes the completed
  \<open>e1\<close> back to \<open>arrived\<close> or \<open>en_route\<close>.
\<close>

theorem C2_status_regresses:
  "map status (emergencies (snd (hospitalAcceptPOST 5000 (Some ruHospital1) (Some ''e1'') (exDb ''completed''))))
     = [''assigned'']
   \<and> regresses ''completed'' ''assigned''
   \<and> map status (emergencies (snd (hospitalStatusPUT 5000 (Some ruHospital1) (Some ''e1'') (Some ''pending'')
        None None (exDb ''arrived'')))) = [''pending'']
   \<and> regresses ''arrived'' ''pending''
   \<and> map status (emergencies (snd (driverLocationPOST 2000000 (Some ruDriver1) (Some ''e1'') (Some 0) (Some 0)
        (exDb ''completed'')))) = [''arrived'']
   \<and> regresses ''completed'' ''arrived''
   \<and> map status (emergencies (snd (driverLocationPATCH 5000 (Some ruDriver1) (Some ''e1'') None
        (Some ''patient_loaded'') (exDb ''completed'')))) = [''en_route'']
   \<and> regresses ''completed'' ''en_route''"
  by (simp add: hospitalAcceptPOST_def hospitalStatusPUT_def driverLocationPOST_def driverLocationPATCH_def
      Let_def truthy_def ruDriver1_def ruHospital1_def exDb_def exEmergency_def updateEmergency_def
      acceptData_def hospitalStatusData_def driverLocationData_def driverStatusData_def validStatuses_def
      calculateDistance_same calculateETA60_0 regresses_def statusRank_def)

subsection \<open>C3: driver and hospital of one license\<close>

text \<open>
  Claim C3, amended. In a store whose user ids are distinct: after a valid create with a
  fresh id the new emergency satisfies the invariant (an assigned driver comes with an
  assigned hospital of the same license). An accept by a hospital \<open>h\<close> sets
  \<open>assignedHospitalId\<close> to \<open>h\<close> and leaves \<open>assignedDriverId\<close> as it was, so the invariant
  holds afterwards exactly when the assigned driver, if any, has the license of \<open>h\<close>.
  The license match is enforced where the driver reads the assignment: an emergency the
  driver assignment query finds is assigned to that driver and satisfies the invariant.
\<close>

theorem C3_assignment_license:
  assumes "distinct (map userId (users d))"
  shows "(ru_role ru = Patient \<and> loc_lat l = Some lat \<and> loc_lng l = Some lng
            \<and> newId \<notin> em_id ` set (emergencies d) \<longrightarrow>
          (\<exists>em'. emergencyOf newId
                    (snd (sosPOST localeCompare now newId aiResult (Some ru) (Some l) symptomsArg d)) = Some em'
                \<and> assignmentInvariant
                    (snd (sosPOST localeCompare now newId aiResult (Some ru) (Some l) symptomsArg d)) em'))
       \<and> (ru_role hu = Hospital \<and> i \<noteq> [] \<and> emergencyOf i d = Some em
            \<and> findUser (Some (ru_id hu)) d = Some h \<longrightarrow>
          (\<exists>em'. emergencyOf i (snd (hospitalAcceptPOST now (Some hu) (Some i) d)) = Some em'
                \<and> assignedHospitalId em' = Some (ru_id hu)
                \<and> assignedDriverId em' = assignedDriverId em
                \<and> (assignmentInvariant (snd (hospitalAcceptPOST now (Some hu) (Some i) d)) em'
                     \<longleftrightarrow> driverMatches d em h)))
       \<and> (driverAssignmentFind dru d = Some e \<longrightarrow>
            e \<in> set (emergencies d) \<and> assignedDriverId e = Some (ru_id dru) \<and> assignmentInvariant d e)"
proof (intro conjI impI)
  assume "ru_role ru = Patient \<and> loc_lat l = Some lat \<and> loc_lng l = Some lng
            \<and> newId \<notin> em_id ` set (emergencies d)"
  then show "\<exists>em'. emergencyOf newId
                    (snd (sosPOST localeCompare now newId aiResult (Some ru) (Some l) symptomsArg d)) = Some em'
                \<and> assignmentInvariant
                    (snd (sosPOST localeCompare now newId aiResult (Some ru) (Some l) symptomsArg d)) em'"
    using create_establishes_invariant [OF assms, of ru l lat lng newId _ localeCompare now aiResult symptomsArg]
    by simp
next
  assume "ru_role hu = Hospital \<and> i \<noteq> [] \<and> emergencyOf i d = Some em
            \<and> findUser (Some (ru_id hu)) d = Some h"
  then show "\<exists>em'. emergencyOf i (snd (hospitalAcceptPOST now (Some hu) (Some i) d)) = Some em'
                \<and> assignedHospitalId em' = Some (ru_id hu)
                \<and> assignedDriverId em' = assignedDriverId em
                \<and> (assignmentInvariant (snd (hospitalAcceptPOST now (Some hu) (Some i) d)) em'
                     \<longleftrightarrow> driverMatches d em h)"
    using accept_invariant [of hu i d em h _ now] by simp
next
  assume "driverAssignmentFind dru d = Some e"
  then show "e \<in> set (emergencies d)" "assignedDriverId e = Some (ru_id dru)" "assignmentInvariant d e"
    using driverAssignmentFind_invariant [of dru d e] by simp_all
qed

text \<open>
  Create with \<open>h1\<close> and \<open>dr1\<close> of license H1, and an accept of \<open>e1\<close> by \<open>h1\<close>.
\<close>

theorem C3_assignment_license_witness:
  "(\<exists>em'. emergencyOf ''e9'' (snd (exSos [exHospital1, exHospital2, exDriver1, exPatient1])) = Some em'
         \<and> assignmentInvariant (snd (exSos [exHospital1, exHospital2, exDriver1, exPatient1])) em')
   \<and> map assignedDriverId (emergencies (snd (exSos [exHospital1, exHospital2, exDriver1, exPatient1])))
       = [Some ''dr1'']
   \<and> (\<exists>em'. emergencyOf ''e1'' (snd (hospitalAcceptPOST 5000 (Some ruHospital1) (Some ''e1'') (exDb ''assigned'')))
               = Some em'
         \<and> assignedHospitalId em' = Some ''h1''
         \<and> assignedDriverId em' = Some ''dr1''
         \<and> assignmentInvariant (snd (hospitalAcceptPOST 5000 (Some ruHospital1) (Some ''e1'') (exDb ''assigned''))) em')"
proof -
  have d1: "distinct (map userId (users (exUsersDb [exHospital1, exHospital2, exDriver1, exPatient1])))"
    by (simp add: exSos_simps)
  have d2: "distinct (map userId (users (exDb ''assigned'')))"
    by (simp add: exDb_simps)
  have p: "ru_role ruPatient1 = Patient \<and> loc_lat exLocation = Some 0 \<and> loc_lng exLocation = Some 0
            \<and> ''e9'' \<notin> em_id ` set (emergencies (exUsersDb [exHospital1, exHospital2, exDriver1, exPatient1]))"
    by (simp add: ruPatient1_def exLocation_def exUsersDb_def)
  have q: "ru_role ruHospital1 = Hospital \<and> ''e1'' \<noteq> []
            \<and> emergencyOf ''e1'' (exDb ''assigned'') = Some (exEmergency ''assigned'')
            \<and> findUser (Some (ru_id ruHospital1)) (exDb ''assigned'') = Some exHospital1"
    by (simp add: emergencyOf_def findUser_def exDb_simps)
  have m: "driverMatches (exDb ''assigned'') (exEmergency ''assigned'') exHospital1"
    by (simp add: driverMatches_def findUser_def exDb_simps)
  have dr: "assignedDriverId (exEmergency ''assigned'') = Some ''dr1''" "ru_id ruHospital1 = ''h1''"
    by (simp_all add: exDb_simps)
  have ev: "map assignedDriverId (emergencies (snd (exSos [exHospital1, exHospital2, exDriver1, exPatient1])))
       = [Some ''dr1'']"
    by (simp add: exSos_simps)
  from C3_assignment_license [OF d1, where ru = ruPatient1 and l = exLocation and lat = 0 and lng = 0
      and newId = "''e9''" and localeCompare = "\<lambda>a b. 0" and now = 5000 and aiResult = None
      and symptomsArg = None] p
  have a: "\<exists>em'. emergencyOf ''e9'' (snd (exSos [exHospital1, exHospital2, exDriver1, exPatient1])) = Some em'
         \<and> assignmentInvariant (snd (exSos [exHospital1, exHospital2, exDriver1, exPatient1])) em'"
    by (simp add: exSos_def)
  from C3_assignment_license [OF d2, where hu = ruHospital1 and i = "''e1''"
      and em = "exEmergency ''assigned''" and h = exHospital1 and now = 5000] q m dr
  have b: "\<exists>em'. emergencyOf ''e1'' (snd (hospitalAcceptPOST 5000 (Some ruHospital1) (Some ''e1'') (exDb ''assigned'')))
               = Some em'
         \<and> assignedHospitalId em' = Some ''h1''
         \<and> assignedDriverId em' = Some ''dr1''
         \<and> assignmentInvariant (snd (hospitalAcceptPOST 5000 (Some ruHospital1) (Some ''e1'') (exDb ''assigned''))) em'"
    by simp
  show ?thesis using a b ev by blast
qed

text \<open>
  Claim C3 as stated fails for the accept: hospital \<open>h2\<close> (license H2) accepts \<open>e1\<close>,
  which is assigned to driver \<open>dr1\<close> (license H1); the driver stays assigned and the
  licenses differ. The driver assignment query, which found \<open>e1\<close> before, finds nothing
  afterwards.
\<close>

theorem C3_accept_breaks_license_match:
  "map (assignmentInvariant (exDb ''assigned'')) (emergencies (exDb ''assigned'')) = [True]
   \<and> map (assignmentInvariant (snd (hospitalAcceptPOST 5000 (Some ruHospital2) (Some ''e1'') (exDb ''assigned''))))
        (emergencies (snd (hospitalAcceptPOST 5000 (Some ruHospital2) (Some ''e1'') (exDb ''assigned''))))
       = [False]
   \<and> map assignedHospitalId
        (emergencies (snd (hospitalAcceptPOST 5000 (Some ruHospital2) (Some ''e1'') (exDb ''assigned''))))
       = [Some ''h2'']
   \<and> map assignedDriverId
        (emergencies (snd (hospitalAcceptPOST 5000 (Some ruHospital2) (Some ''e1'') (exDb ''assigned''))))
       = [Some ''dr1'']
   \<and> licenseNumber exHospital2 = Some ''H2'' \<and> licenseNumber exDriver1 = Some ''H1''
   \<and> driverAssignmentFind ruDriver1 (exDb ''assigned'') = Some (exEmergency ''assigned'')
   \<and> driverAssignmentFind ruDriver1
        (snd (hospitalAcceptPOST 5000 (Some ruHospital2) (Some ''e1'') (exDb ''assigned''))) = None"
  by (simp add: assignmentInvariant_def findUser_def hospitalAcceptPOST_def Let_def truthy_def
      updateEmergency_def acceptData_def driverAssignmentFind_def driverAssignmentWhere_def orNull_def
      sortBy_def exDb_simps)

subsection \<open>C4: the hospital feed\<close>

text \<open>
  Claim C4, amended. For a feed request without a status filter: every emergency of the
  response is an emergency of the store that is assigned to the hospital, is not
  completed, and has an unexpired document or has no document and was triggered within
  the last 60 minutes. Conversely, when the page holds all matches (offset 0, no more
  matches than the limit), every such emergency with a patient id has its patient in the
  response (the feed keeps one emergency per patient). A completed emergency is never in
  the response.
\<close>

theorem C4_feed_membership:
  shows "(e \<in> set (hospitalFeed now h None limit offset d) \<longrightarrow>
            e \<in> set (emergencies d) \<and> assignedHospitalId e = Some h \<and> status e \<noteq> ''completed''
            \<and> (hasLiveDocument now d e
                \<or> (hasNoDocuments d e \<and> triggeredAt e \<ge> now - 60 * 60 * 1000)))
       \<and> (e \<in> set (emergencies d) \<and> assignedHospitalId e = Some h \<and> status e \<noteq> ''completed''
            \<and> (hasLiveDocument now d e
                \<or> (hasNoDocuments d e \<and> triggeredAt e \<ge> now - 60 * 60 * 1000))
            \<and> patientId e \<noteq> []
            \<and> length (filter (feedWhere now h None d) (emergencies d)) \<le> limit \<longrightarrow>
            patientId e \<in> patientId ` set (hospitalFeed now h None limit 0 d))
       \<and> (status e = ''completed'' \<longrightarrow> e \<notin> set (hospitalFeed now h None limit offset d))"
proof -
  have w: "feedWhere now h None d e \<longleftrightarrow>
             assignedHospitalId e = Some h \<and> status e \<noteq> ''completed''
             \<and> (hasLiveDocument now d e
                 \<or> (hasNoDocuments d e \<and> triggeredAt e \<ge> now - 60 * 60 * 1000))"
    by (simp add: feedWhere_def truthy_def Let_def)
  have sub: "set (hospitalFeed now h None limit offset d)
               \<subseteq> set (filter (feedWhere now h None d) (emergencies d))"
    using set_dedupeByPatient set_feedFindMany unfolding hospitalFeed_def by blast
  have p1: "e \<in> set (hospitalFeed now h None limit offset d) \<longrightarrow>
            e \<in> set (emergencies d) \<and> assignedHospitalId e = Some h \<and> status e \<noteq> ''completed''
            \<and> (hasLiveDocument now d e
                \<or> (hasNoDocuments d e \<and> triggeredAt e \<ge> now - 60 * 60 * 1000))"
    using sub w by auto
  have p2: "e \<in> set (emergencies d) \<and> assignedHospitalId e = Some h \<and> status e \<noteq> ''completed''
            \<and> (hasLiveDocument now d e
                \<or> (hasNoDocuments d e \<and> triggeredAt e \<ge> now - 60 * 60 * 1000))
            \<and> patientId e \<noteq> []
            \<and> length (filter (feedWhere now h None d) (emergencies d)) \<le> limit \<longrightarrow>
            patientId e \<in> patientId ` set (hospitalFeed now h None limit 0 d)"
  proof
    assume a: "e \<in> set (emergencies d) \<and> assignedHospitalId e = Some h \<and> status e \<noteq> ''completed''
            \<and> (hasLiveDocument now d e
                \<or> (hasNoDocuments d e \<and> triggeredAt e \<ge> now - 60 * 60 * 1000))
            \<and> patientId e \<noteq> []
            \<and> length (filter (feedWhere now h None d) (emergencies d)) \<le> limit"
    then have "e \<in> set (filter (feedWhere now h None d) (emergencies d))"
      using w by simp
    then have "e \<in> set (feedFindMany now h None limit 0 d)"
      using set_feedFindMany_whole_page [of now h None d limit] a by simp
    then show "patientId e \<in> patientId ` set (hospitalFeed now h None limit 0 d)"
      unfolding hospitalFeed_def using dedupeByPatient_covers [of e _ "[]"] a by simp
  qed
  have p3: "status e = ''completed'' \<longrightarrow> e \<notin> set (hospitalFeed now h None limit offset d)"
    using sub w by auto
  show ?thesis using p1 p2 p3 by blast
qed

text \<open>
  At time 1020000 the arrived \<open>e1\<close> with its live document is the feed of \<open>h1\<close>; two
  hours after its trigger and without documents it is not; the completed \<open>e1\<close> is not.
\<close>

theorem C4_feed_membership_witness:
  "hospitalFeed 1020000 ''h1'' None 20 0 (exDbDocs ''arrived'') = [exEmergency ''arrived'']
   \<and> patientId (exEmergency ''arrived'') \<in> patientId ` set (hospitalFeed 1020000 ''h1'' None 20 0 (exDbDocs ''arrived''))
   \<and> hasLiveDocument 1020000 (exDbDocs ''arrived'') (exEmergency ''arrived'')
   \<and> hospitalFeed 8200000 ''h1'' None 20 0 (exDb ''arrived'') = []
   \<and> exEmergency ''completed'' \<notin> set (hospitalFeed 1020000 ''h1'' None 20 0 (exDbDocs ''completed''))"
proof -
  have ev: "hospitalFeed 1020000 ''h1'' None 20 0 (exDbDocs ''arrived'') = [exEmergency ''arrived'']"
       "hospitalFeed 8200000 ''h1'' None 20 0 (exDb ''arrived'') = []"
    by (simp_all add: hospitalFeed_def feedFindMany_def feedWhere_def hasLiveDocument_def hasNoDocuments_def
        sortBy_def truthy_def Let_def exDbDocs_def exDocument_def exDb_def exEmergency_def)
  have h: "exEmergency ''arrived'' \<in> set (emergencies (exDbDocs ''arrived''))
       \<and> assignedHospitalId (exEmergency ''arrived'') = Some ''h1''
       \<and> status (exEmergency ''arrived'') \<noteq> ''completed''
       \<and> hasLiveDocument 1020000 (exDbDocs ''arrived'') (exEmergency ''arrived'')
       \<and> patientId (exEmergency ''arrived'') \<noteq> []
       \<and> length (filter (feedWhere 1020000 ''h1'' None (exDbDocs ''arrived'')) (emergencies (exDbDocs ''arrived''))) \<le> 20"
    by (simp add: hasLiveDocument_def exDbDocs_def exDocument_def exDb_def exEmergency_def)
  have c: "status (exEmergency ''completed'') = ''completed''" by (simp add: exEmergency_def)
  show ?thesis
    using C4_feed_membership [of "exEmergency ''arrived''" 1020000 "''h1''" 20 0 "exDbDocs ''arrived''"]
      C4_feed_membership [of "exEmergency ''completed''" 1020000 "''h1''" 20 0 "exDbDocs ''completed''"]
      h c ev
    by blast
qed

text \<open>
  Claim C4 as stated fails: a completed emergency of the hospital, triggered 2 minutes
  ago and with one live document, is not in the feed requested without a status filter.
\<close>

theorem C4_completed_with_live_document_not_in_feed:
  "status (exEmergency ''completed'') = ''completed''
   \<and> assignedHospitalId (exEmergency ''completed'') = Some ''h1''
   \<and> triggeredAt (exEmergency ''completed'') = 1020000 - 2 * 60 * 1000
   \<and> hasLiveDocument 1020000 (exDbDocs ''completed'') (exEmergency ''completed'')
   \<and> emergencies (exDbDocs ''completed'') = [exEmergency ''completed'']
   \<and> hospitalFeed 1020000 ''h1'' None 20 0 (exDbDocs ''completed'') = []"
  by (simp add: hospitalFeed_def feedFindMany_def feedWhere_def hasLiveDocument_def hasNoDocuments_def
      sortBy_def truthy_def Let_def exDbDocs_def exDocument_def exDb_def exEmergency_def)

subsection \<open>C5: the status create persists\<close>

text \<open>
  Claim C5, amended. A valid create with a fresh id leaves the new emergency either
  \<open>assigned\<close> or \<open>pending\<close>: it is \<open>assigned\<close> exactly when a driver was assigned (201),
  and it stays \<open>pending\<close>, with the hospital assigned, when a hospital but no driver was
  found (202); with no hospital at all the answer is 503 and the row stays as created.
\<close>

theorem C5_status_after_create:
  assumes "ru_role ru = Patient" "loc_lat l = Some lat" "loc_lng l = Some lng"
    and "newId \<notin> em_id ` set (emergencies d)"
    and "r = sosPOST localeCompare now newId aiResult (Some ru) (Some l) symptomsArg d"
  shows "\<exists>em'. emergencyOf newId (snd r) = Some em'
           \<and> (status em' = ''assigned'' \<or> status em' = ''pending'')
           \<and> (status em' = ''assigned'' \<longleftrightarrow> assignedDriverId em' \<noteq> None)
           \<and> (httpStatus (fst r) = 201 \<longleftrightarrow> assignedDriverId em' \<noteq> None)
           \<and> (httpStatus (fst r) = 202 \<longleftrightarrow> assignedHospitalId em' \<noteq> None \<and> assignedDriverId em' = None)
           \<and> (httpStatus (fst r) = 503 \<longleftrightarrow> assignedHospitalId em' = None)"
proof -
  define c where "c = createdEmergency newId (ru_id ru) now l symptomsArg"
  define d1 where "d1 = insertEmergency c d"
  have cid: "em_id c = newId" by (simp add: c_def em_id_createdEmergency)
  have c0: "status c = ''pending''" "assignedDriverId c = None" "assignedHospitalId c = None"
    by (simp_all add: c_def createdEmergency_def)
  have ins: "emergencyOf newId d1 = Some c"
    unfolding d1_def by (rule emergencyOf_inserted [OF assms(4) cid])
  have upd: "\<And>f. (\<And>e. em_id (f e) = em_id e) \<Longrightarrow> emergencyOf newId (updateEmergency newId f d1) = Some (f c)"
    unfolding d1_def by (rule emergencyOf_created [OF assms(4) cid])
  from sosPOST_branches [OF assms(1-3) d1_def [unfolded c_def] assms(5)]
  obtain sev ass where br:
    "(findNearestHospitals lat lng 5 d = [] \<and> fallbackHospitalOf d = None
         \<and> r = (jsonError ''No hospitals available'' 503, d1))
    \<or> (\<exists>fh. findNearestHospitals lat lng 5 d = [] \<and> fallbackHospitalOf d = Some fh
         \<and> r = (NextResponse 202 (hospitalOnlyJson newId msgFallback fh (orNull (licenseNumber fh))),
                updateEmergency newId (hospitalOnlyData (userId fh) sev ass) d1))
    \<or> (\<exists>ah rest. findNearestHospitals lat lng 5 d = ah # rest
         \<and> orNull (licenseNumber (rh_user ah)) = None
         \<and> r = (NextResponse 202 (hospitalOnlyJson newId msgNoLicense (rh_user ah) None),
                updateEmergency newId (hospitalOnlyData (userId (rh_user ah)) sev ass) d1))
    \<or> (\<exists>ah rest lic. findNearestHospitals lat lng 5 d = ah # rest
         \<and> orNull (licenseNumber (rh_user ah)) = Some lic
         \<and> findNearestAmbulances localeCompare lat lng 3 (Some lic) d = []
         \<and> r = (NextResponse 202 (hospitalOnlyJson newId msgNoAmbulance (rh_user ah) (Some lic)),
                updateEmergency newId (hospitalOnlyData (userId (rh_user ah)) sev ass) d1))
    \<or> (\<exists>ah rest lic amb rest2 js etaV distV. findNearestHospitals lat lng 5 d = ah # rest
         \<and> orNull (licenseNumber (rh_user ah)) = Some lic
         \<and> findNearestAmbulances localeCompare lat lng 3 (Some lic) d = amb # rest2
         \<and> map fst js = dispatchedKeys
         \<and> r = (NextResponse 201
                  (JObj ((''sosId'', JStr newId) # (''ambulanceDispatched'', JBool True) # js)),
                updateEmergency newId
                  (dispatchedData (userId (rh_user ah)) (userId (rd_user amb)) sev ass etaV distV) d1))"
    by blast
  have ho: "\<And>h. emergencyOf newId (updateEmergency newId (hospitalOnlyData h sev ass) d1)
                 = Some (hospitalOnlyData h sev ass c)"
    by (rule upd) (rule em_id_hospitalOnlyData)
  have di: "\<And>h dr etaV distV. emergencyOf newId (updateEmergency newId (dispatchedData h dr sev ass etaV distV) d1)
                 = Some (dispatchedData h dr sev ass etaV distV c)"
    by (rule upd) (rule em_id_dispatchedData)
  from br show ?thesis
  proof (elim disjE exE conjE)
    assume "r = (jsonError ''No hospitals available'' 503, d1)"
    then show ?thesis using ins c0 by (simp add: jsonError_def)
  next
    fix fh assume "r = (NextResponse 202 (hospitalOnlyJson newId msgFallback fh (orNull (licenseNumber fh))),
                updateEmergency newId (hospitalOnlyData (userId fh) sev ass) d1)"
    then show ?thesis using ho c0 by (simp add: hospitalOnlyData_def)
  next
    fix ah assume "r = (NextResponse 202 (hospitalOnlyJson newId msgNoLicense (rh_user ah) None),
                updateEmergency newId (hospitalOnlyData (userId (rh_user ah)) sev ass) d1)"
    then show ?thesis using ho c0 by (simp add: hospitalOnlyData_def)
  next
    fix ah lic assume "r = (NextResponse 202 (hospitalOnlyJson newId msgNoAmbulance (rh_user ah) (Some lic)),
                updateEmergency newId (hospitalOnlyData (userId (rh_user ah)) sev ass) d1)"
    then show ?thesis using ho c0 by (simp add: hospitalOnlyData_def)
  next
    fix ah amb js etaV distV
    assume "r = (NextResponse 201
                  (JObj ((''sosId'', JStr newId) # (''ambulanceDispatched'', JBool True) # js)),
                updateEmergency newId
                  (dispatchedData (userId (rh_user ah)) (userId (rd_user amb)) sev ass etaV distV) d1)"
    then show ?thesis using di c0 by (simp add: dispatchedData_def)
  qed
qed

text \<open>
  Create on a store with the licensed hospital \<open>h1\<close> and its driver \<open>dr1\<close>: 201 and \<open>assigned\<close>.
\<close>

theorem C5_status_after_create_witness:
  "map status (emergencies (snd (exSos [exHospital1, exHospital2, exDriver1, exPatient1]))) = [''assigned'']
   \<and> httpStatus (fst (exSos [exHospital1, exHospital2, exDriver1, exPatient1])) = 201
   \<and> (\<exists>em'. emergencyOf ''e9'' (snd (exSos [exHospital1, exHospital2, exDriver1, exPatient1])) = Some em'
           \<and> (status em' = ''assigned'' \<or> status em' = ''pending'')
           \<and> (status em' = ''assigned'' \<longleftrightarrow> assignedDriverId em' \<noteq> None)
           \<and> (httpStatus (fst (exSos [exHospital1, exHospital2, exDriver1, exPatient1])) = 201
                 \<longleftrightarrow> assignedDriverId em' \<noteq> None)
           \<and> (httpStatus (fst (exSos [exHospital1, exHospital2, exDriver1, exPatient1])) = 202
                 \<longleftrightarrow> assignedHospitalId em' \<noteq> None \<and> assignedDriverId em' = None)
           \<and> (httpStatus (fst (exSos [exHospital1, exHospital2, exDriver1, exPatient1])) = 503
                 \<longleftrightarrow> assignedHospitalId em' = None))"
proof -
  have p: "ru_role ruPatient1 = Patient" by (simp add: ruPatient1_def)
  have la: "loc_lat exLocation = Some 0" and lo: "loc_lng exLocation = Some 0"
    by (simp_all add: exLocation_def)
  have fr: "''e9'' \<notin> em_id ` set (emergencies (exUsersDb [exHospital1, exHospital2, exDriver1, exPatient1]))"
    by (simp add: exUsersDb_def)
  have ev: "map status (emergencies (snd (exSos [exHospital1, exHospital2, exDriver1, exPatient1]))) = [''assigned'']
   \<and> httpStatus (fst (exSos [exHospital1, exHospital2, exDriver1, exPatient1])) = 201"
    by (simp add: exSos_simps)
  show ?thesis
    using C5_status_after_create [OF p la lo fr exSos_def] ev by blast
qed

text \<open>
  Claim C5 as stated fails: with a nearest hospital without a license, with a fallback
  hospital (no hospital has a location), and with a licensed hospital without a driver,
  create assigns the hospital and the emergency stays \<open>pending\<close>.
\<close>

theorem C5_hospital_only_stays_pending:
  "map assignedHospitalId (emergencies (snd (exSos [exHospitalNoLicense, exPatient1]))) = [Some ''h3'']
   \<and> map status (emergencies (snd (exSos [exHospitalNoLicense, exPatient1]))) = [''pending'']
   \<and> map assignedHospitalId (emergencies (snd (exSos [exHospitalNoLocation, exDriver4, exPatient1]))) = [Some ''h4'']
   \<and> map status (emergencies (snd (exSos [exHospitalNoLocation, exDriver4, exPatient1]))) = [''pending'']
   \<and> map assignedHospitalId (emergencies (snd (exSos [exHospital1, exPatient1]))) = [Some ''h1'']
   \<and> map status (emergencies (snd (exSos [exHospital1, exPatient1]))) = [''pending'']"
  by (simp add: exSos_simps)

subsection \<open>C6: the outcomes of create\<close>

text \<open>
  Claim C6, amended. The response of a valid create has no outcome code; the status code
  with the \<open>ambulanceDispatched\<close>, \<open>message\<close> and \<open>error\<close> fields tells five outcomes
  apart, decided by the store: 503 with the error "No hospitals available" when no
  hospital is active; 202 with the fallback message when no active hospital has a
  location; 202 with the no-license message when the nearest hospital has no license;
  202 with the no-ambulance message when no active driver has its license; 201 with
  \<open>ambulanceDispatched: true\<close> otherwise. The three messages differ.
\<close>

theorem C6_create_outcomes:
  assumes "ru_role ru = Patient" "loc_lat l = Some lat" "loc_lng l = Some lng"
    and "r = fst (sosPOST localeCompare now newId aiResult (Some ru) (Some l) symptomsArg d)"
  shows "sosOutcome r =
     (if \<not> hasActiveHospital d then (503, None, None, Some (JStr ''No hospitals available''))
      else if \<not> hasLocatedHospital d then (202, Some (JBool False), Some (JStr msgFallback), None)
      else if nearestLicense lat lng d = None
      then (202, Some (JBool False), Some (JStr msgNoLicense), None)
      else if \<not> hasMatchingDriver (nearestLicense lat lng d) d
      then (202, Some (JBool False), Some (JStr msgNoAmbulance), None)
      else (201, Some (JBool True), None, None))
    \<and> distinct [msgFallback, msgNoLicense, msgNoAmbulance]"
proof (intro conjI msgs_distinct)
  define d1 where "d1 = insertEmergency (createdEmergency newId (ru_id ru) now l symptomsArg) d"
  define rr where "rr = sosPOST localeCompare now newId aiResult (Some ru) (Some l) symptomsArg d"
  have r: "r = fst rr" by (simp add: rr_def assms(4))
  from sosPOST_branches [OF assms(1-3) d1_def rr_def]
  obtain sev ass where br:
    "(findNearestHospitals lat lng 5 d = [] \<and> fallbackHospitalOf d = None
         \<and> rr = (jsonError ''No hospitals available'' 503, d1))
    \<or> (\<exists>fh. findNearestHospitals lat lng 5 d = [] \<and> fallbackHospitalOf d = Some fh
         \<and> rr = (NextResponse 202 (hospitalOnlyJson newId msgFallback fh (orNull (licenseNumber fh))),
                updateEmergency newId (hospitalOnlyData (userId fh) sev ass) d1))
    \<or> (\<exists>ah rest. findNearestHospitals lat lng 5 d = ah # rest
         \<and> orNull (licenseNumber (rh_user ah)) = None
         \<and> rr = (NextResponse 202 (hospitalOnlyJson newId msgNoLicense (rh_user ah) None),
                updateEmergency newId (hospitalOnlyData (userId (rh_user ah)) sev ass) d1))
    \<or> (\<exists>ah rest lic. findNearestHospitals lat lng 5 d = ah # rest
         \<and> orNull (licenseNumber (rh_user ah)) = Some lic
         \<and> findNearestAmbulances localeCompare lat lng 3 (Some lic) d = []
         \<and> rr = (NextResponse 202 (hospitalOnlyJson newId msgNoAmbulance (rh_user ah) (Some lic)),
                updateEmergency newId (hospitalOnlyData (userId (rh_user ah)) sev ass) d1))
    \<or> (\<exists>ah rest lic amb rest2 js etaV distV. findNearestHospitals lat lng 5 d = ah # rest
         \<and> orNull (licenseNumber (rh_user ah)) = Some lic
         \<and> findNearestAmbulances localeCompare lat lng 3 (Some lic) d = amb # rest2
         \<and> map fst js = dispatchedKeys
         \<and> rr = (NextResponse 201
                  (JObj ((''sosId'', JStr newId) # (''ambulanceDispatched'', JBool True) # js)),
                updateEmergency newId
                  (dispatchedData (userId (rh_user ah)) (userId (rd_user amb)) sev ass etaV distV) d1))"
    by blast
  have ho: "\<And>m h lic. sosOutcome (NextResponse 202 (hospitalOnlyJson newId m h lic))
              = (202, Some (JBool False), Some (JStr m), None)"
    by (simp add: sosOutcome_def hospitalOnlyJson_def jsonField_def)
  from br show "sosOutcome r =
     (if \<not> hasActiveHospital d then (503, None, None, Some (JStr ''No hospitals available''))
      else if \<not> hasLocatedHospital d then (202, Some (JBool False), Some (JStr msgFallback), None)
      else if nearestLicense lat lng d = None
      then (202, Some (JBool False), Some (JStr msgNoLicense), None)
      else if \<not> hasMatchingDriver (nearestLicense lat lng d) d
      then (202, Some (JBool False), Some (JStr msgNoAmbulance), None)
      else (201, Some (JBool True), None, None))"
  proof (elim disjE exE conjE)
    assume a: "findNearestHospitals lat lng 5 d = []" "fallbackHospitalOf d = None"
      "rr = (jsonError ''No hospitals available'' 503, d1)"
    have "\<not> hasActiveHospital d" using a(2) by (simp add: fallbackHospitalOf_None_iff)
    then show ?thesis using a(3) r by (simp add: sosOutcome_def jsonError_def jsonField_def)
  next
    fix fh
    assume a: "findNearestHospitals lat lng 5 d = []" "fallbackHospitalOf d = Some fh"
      "rr = (NextResponse 202 (hospitalOnlyJson newId msgFallback fh (orNull (licenseNumber fh))),
                updateEmergency newId (hospitalOnlyData (userId fh) sev ass) d1)"
    have "hasActiveHospital d" using a(2) fallbackHospitalOf_None_iff [of d] by simp
    moreover have "\<not> hasLocatedHospital d" using a(1) by (simp add: findNearestHospitals_Nil_iff)
    ultimately show ?thesis using a(3) r by (simp add: ho)
  next
    fix ah rest
    assume a: "findNearestHospitals lat lng 5 d = ah # rest" "orNull (licenseNumber (rh_user ah)) = None"
      "rr = (NextResponse 202 (hospitalOnlyJson newId msgNoLicense (rh_user ah) None),
                updateEmergency newId (hospitalOnlyData (userId (rh_user ah)) sev ass) d1)"
    have l: "hasLocatedHospital d" using a(1) findNearestHospitals_Nil_iff [of lat lng d] by simp
    moreover have "nearestLicense lat lng d = None" using a(1,2) by (simp add: nearestLicense_def)
    ultimately show ?thesis using a(3) r located_imp_active [OF l] by (simp add: ho)
  next
    fix ah rest lic
    assume a: "findNearestHospitals lat lng 5 d = ah # rest" "orNull (licenseNumber (rh_user ah)) = Some lic"
      "findNearestAmbulances localeCompare lat lng 3 (Some lic) d = []"
      "rr = (NextResponse 202 (hospitalOnlyJson newId msgNoAmbulance (rh_user ah) (Some lic)),
                updateEmergency newId (hospitalOnlyData (userId (rh_user ah)) sev ass) d1)"
    have l: "hasLocatedHospital d" using a(1) findNearestHospitals_Nil_iff [of lat lng d] by simp
    have n: "nearestLicense lat lng d = Some lic" using a(1,2) by (simp add: nearestLicense_def)
    have "\<not> hasMatchingDriver (Some lic) d"
      using a(3) findNearestAmbulances_Nil_iff [of localeCompare lat lng "Some lic" d] by simp
    then show ?thesis using a(4) r n l located_imp_active [OF l] by (simp add: ho)
  next
    fix ah rest lic amb rest2 js etaV distV
    assume a: "findNearestHospitals lat lng 5 d = ah # rest" "orNull (licenseNumber (rh_user ah)) = Some lic"
      "findNearestAmbulances localeCompare lat lng 3 (Some lic) d = amb # rest2"
      "map fst js = dispatchedKeys"
      "rr = (NextResponse 201
                  (JObj ((''sosId'', JStr newId) # (''ambulanceDispatched'', JBool True) # js)),
                updateEmergency newId
                  (dispatchedData (userId (rh_user ah)) (userId (rd_user amb)) sev ass etaV distV) d1)"
    have l: "hasLocatedHospital d" using a(1) findNearestHospitals_Nil_iff [of lat lng d] by simp
    have n: "nearestLicense lat lng d = Some lic" using a(1,2) by (simp add: nearestLicense_def)
    have m: "hasMatchingDriver (Some lic) d"
      using a(3) findNearestAmbulances_Nil_iff [of localeCompare lat lng "Some lic" d] by simp
    have k: "fst ` set js = set dispatchedKeys" using a(4) by (metis set_map)
    have k1: "map_of js ''message'' = None" and k2: "map_of js ''error'' = None"
      by (simp_all add: map_of_eq_None_iff k dispatchedKeys_def)
    show ?thesis using a(5) r n l m located_imp_active [OF l] k1 k2
      by (simp add: sosOutcome_def jsonField_def)
  qed
qed

text \<open>
  The outcomes of create with hospital and driver, with a hospital only, and with no hospital.
\<close>

theorem C6_create_outcomes_witness:
  "sosOutcome (fst (exSos [exHospital1, exHospital2, exDriver1, exPatient1]))
     = (201, Some (JBool True), None, None)
   \<and> sosOutcome (fst (exSos [exHospital1, exPatient1]))
     = (202, Some (JBool False), Some (JStr msgNoAmbulance), None)
   \<and> sosOutcome (fst (exSos [exPatient1]))
     = (503, None, None, Some (JStr ''No hospitals available''))"
proof -
  have p: "ru_role ruPatient1 = Patient" by (simp add: ruPatient1_def)
  have la: "loc_lat exLocation = Some 0" and lo: "loc_lng exLocation = Some 0"
    by (simp_all add: exLocation_def)
  have r: "\<And>us. fst (exSos us)
             = fst (sosPOST (\<lambda>a b. 0) 5000 ''e9'' None (Some ruPatient1) (Some exLocation) None (exUsersDb us))"
    by (simp add: exSos_def)
  have c1: "hasActiveHospital (exUsersDb [exHospital1, exHospital2, exDriver1, exPatient1])"
       "hasLocatedHospital (exUsersDb [exHospital1, exHospital2, exDriver1, exPatient1])"
       "nearestLicense 0 0 (exUsersDb [exHospital1, exHospital2, exDriver1, exPatient1]) = Some ''H1''"
       "hasMatchingDriver (Some ''H1'') (exUsersDb [exHospital1, exHospital2, exDriver1, exPatient1])"
    by (simp_all add: hasActiveHospital_def hasLocatedHospital_def nearestLicense_def hasMatchingDriver_def
        exSos_simps)
  have c2: "hasActiveHospital (exUsersDb [exHospital1, exPatient1])"
       "hasLocatedHospital (exUsersDb [exHospital1, exPatient1])"
       "nearestLicense 0 0 (exUsersDb [exHospital1, exPatient1]) = Some ''H1''"
       "\<not> hasMatchingDriver (Some ''H1'') (exUsersDb [exHospital1, exPatient1])"
    by (simp_all add: hasActiveHospital_def hasLocatedHospital_def nearestLicense_def hasMatchingDriver_def
        exSos_simps)
  have c3: "\<not> hasActiveHospital (exUsersDb [exPatient1])"
    by (simp add: hasActiveHospital_def exSos_simps)
  show ?thesis
    using C6_create_outcomes [OF p la lo r [of "[exHospital1, exHospital2, exDriver1, exPatient1]"]]
      C6_create_outcomes [OF p la lo r [of "[exHospital1, exPatient1]"]]
      C6_create_outcomes [OF p la lo r [of "[exPatient1]"]]
      c1 c2 c3
    by simp
qed

text \<open>
  Claim C6 as stated fails: when no hospital has a location, create assigns the oldest
  active hospital and searches no ambulance. The response is 202 with
  \<open>ambulanceDispatched: false\<close> although the hospital has a license on file and a driver
  of that license is active, so it is none of the four outcomes of the claim; and none
  of the response's fields holds one of the four codes.
\<close>

theorem C6_fifth_outcome_without_code:
  "sosOutcome (fst (exSos [exHospitalNoLocation, exDriver4, exPatient1]))
     = (202, Some (JBool False), Some (JStr msgFallback), None)
   \<and> jsonKeys (body (fst (exSos [exHospitalNoLocation, exDriver4, exPatient1])))
     = [''sosId'', ''ambulanceDispatched'', ''message'', ''hospitalAssigned'', ''hospitalLicenseNumber'',
        ''hospital'', ''eta'']
   \<and> jsonField ''hospitalLicenseNumber'' (body (fst (exSos [exHospitalNoLocation, exDriver4, exPatient1])))
     = Some (JStr ''H4'')
   \<and> hasMatchingDriver (Some ''H4'') (exUsersDb [exHospitalNoLocation, exDriver4, exPatient1])
   \<and> JStr ''dispatched'' \<notin> set (jsonValues (body (fst (exSos [exHospitalNoLocation, exDriver4, exPatient1]))))
   \<and> JStr ''hospital_only_no_license''
        \<notin> set (jsonValues (body (fst (exSos [exHospitalNoLocation, exDriver4, exPatient1]))))
   \<and> JStr ''hospital_only_no_driver''
        \<notin> set (jsonValues (body (fst (exSos [exHospitalNoLocation, exDriver4, exPatient1]))))
   \<and> JStr ''no_hospitals_available''
        \<notin> set (jsonValues (body (fst (exSos [exHospitalNoLocation, exDriver4, exPatient1]))))"
  by (simp add: sosOutcome_def jsonKeys_def jsonField_def jsonValues_def hasMatchingDriver_def
      hospitalOnlyJson_def hospitalJson_def userLocationJson_def jOptStr_def msgFallback_def exSos_simps)

subsection \<open>C7: the write throttle of the driver location report\<close>

text \<open>
  Claim C7 says that a report skips the write exactly when the previous write is less than
  4 seconds old, the new position is within 20 metres of the persisted one and the derived
  status is unchanged. The handler compares \<open>calculateDistance\<close>, rounded to 0.1 km,
  with 0.02, which is the test that the move is under 50 metres (\<open>movedLittle_iff\<close>): a
  report one second after the last write and about 33 metres (more than 0.02 km) from the
  persisted position, with the status unchanged, is answered with the fresh distance and
  ETA and leaves the store as it was.
\<close>

theorem C7_move_of_33m_is_not_written:
  "driverLastLocationUpdate (exEmergency ''arrived'') = Some 1000000
   \<and> haversineKm (3 / 10000) 0 0 0 > 2 / 100
   \<and> driverLocationPOST 1001000 (Some ruDriver1) (Some ''e1'') (Some (3 / 10000)) (Some 0) (exDb ''arrived'')
      = (NextResponse 200
           (JObj [(''success'', JBool True),
                  (''tracking'', driverTrackingJson 0 0 True ''Main Street'')]),
         exDb ''arrived'')"
proof (intro conjI)
  show "driverLastLocationUpdate (exEmergency ''arrived'') = Some 1000000"
    by (simp add: exEmergency_def)
  show "haversineKm (3 / 10000) 0 0 0 > 2 / 100"
    by (rule moved_33m_more_than_20m)
  show "driverLocationPOST 1001000 (Some ruDriver1) (Some ''e1'') (Some (3 / 10000)) (Some 0) (exDb ''arrived'')
      = (NextResponse 200
           (JObj [(''success'', JBool True),
                  (''tracking'', driverTrackingJson 0 0 True ''Main Street'')]),
         exDb ''arrived'')"
    by (simp add: driverLocationPOST_def exDb_def exEmergency_def ruDriver1_def
        truthy_def moved_33m_rounds_to_0 calculateETA60_0 Let_def)
qed

subsection \<open>C8: expiry of tokens and documents\<close>

text \<open>
  Claim C8. (1) A token whose \<open>exp\<close> is before the current time (in whole seconds, the
  unit of \<open>exp\<close>) is answered 401 and nothing is written, whatever the store holds, so
  also when the document has not expired. (2) A request with a valid token for a document
  whose \<open>expiresAt\<close> has passed is answered 410; the metadata row is deleted and the blob
  is destroyed (it is gone when the blob store carries the request out; the handler
  swallows its failure), and a later request with a valid token for that document is
  answered 404. (3) A response that serves content (200 or 302) is for a valid token and
  a document that has not expired.
\<close>

theorem C8_token_and_document_expiry:
  "(t \<noteq> [] \<and> tokenPayload env t = Some p \<and> tok_exp p < now div 1000 \<longrightarrow>
      documentViewGET env now destroyOk fetchUpstream sign (Some t) st
        = (jsonError ''Invalid or expired token'' 401, st))
   \<and> (verifyDocumentToken env now t = Some p \<and> documentOf (tok_documentId p) st = Some doc
        \<and> doc_expiresAt doc \<le> now \<longrightarrow>
      fst (documentViewGET env now destroyOk fetchUpstream sign (Some t) st)
        = jsonError ''Document expired'' 410
      \<and> documentOf (tok_documentId p)
           (snd (documentViewGET env now destroyOk fetchUpstream sign (Some t) st)) = None
      \<and> blobs (snd (documentViewGET env now destroyOk fetchUpstream sign (Some t) st))
           = (if destroyOk then blobs st - {cloudinaryId doc} else blobs st)
      \<and> (verifyDocumentToken env now' t' = Some p' \<and> tok_documentId p' = tok_documentId p \<longrightarrow>
            documentViewGET env now' destroyOk' fetchUpstream' sign' (Some t')
              (snd (documentViewGET env now destroyOk fetchUpstream sign (Some t) st))
            = (jsonError ''Document not found'' 404,
               snd (documentViewGET env now destroyOk fetchUpstream sign (Some t) st))))
   \<and> (httpStatus (fst (documentViewGET env now destroyOk fetchUpstream sign tokenArg st)) = 200
        \<or> httpStatus (fst (documentViewGET env now destroyOk fetchUpstream sign tokenArg st)) = 302 \<longrightarrow>
      (\<exists>t p doc. tokenArg = Some t \<and> verifyDocumentToken env now t = Some p
            \<and> documentOf (tok_documentId p) st = Some doc \<and> now < doc_expiresAt doc))"
proof -
  have p1: "t \<noteq> [] \<and> tokenPayload env t = Some p \<and> tok_exp p < now div 1000 \<longrightarrow>
      documentViewGET env now destroyOk fetchUpstream sign (Some t) st
        = (jsonError ''Invalid or expired token'' 401, st)"
    using expired_token_rejected [of env t p now]
    by (auto simp: documentViewGET_def truthy_def)
  have p2: "verifyDocumentToken env now t = Some p \<and> documentOf (tok_documentId p) st = Some doc
        \<and> doc_expiresAt doc \<le> now \<longrightarrow>
      fst (documentViewGET env now destroyOk fetchUpstream sign (Some t) st)
        = jsonError ''Document expired'' 410
      \<and> documentOf (tok_documentId p)
           (snd (documentViewGET env now destroyOk fetchUpstream sign (Some t) st)) = None
      \<and> blobs (snd (documentViewGET env now destroyOk fetchUpstream sign (Some t) st))
           = (if destroyOk then blobs st - {cloudinaryId doc} else blobs st)
      \<and> (verifyDocumentToken env now' t' = Some p' \<and> tok_documentId p' = tok_documentId p \<longrightarrow>
            documentViewGET env now' destroyOk' fetchUpstream' sign' (Some t')
              (snd (documentViewGET env now destroyOk fetchUpstream sign (Some t) st))
            = (jsonError ''Document not found'' 404,
               snd (documentViewGET env now destroyOk fetchUpstream sign (Some t) st)))"
  proof
    assume a: "verifyDocumentToken env now t = Some p \<and> documentOf (tok_documentId p) st = Some doc
        \<and> doc_expiresAt doc \<le> now"
    define st' where "st' = st\<lparr>blobs := deleteExpiredDocument destroyOk (cloudinaryId doc) (blobs st),
               store := deleteDocumentRow (tok_documentId p) (store st)\<rparr>"
    have r: "documentViewGET env now destroyOk fetchUpstream sign (Some t) st
               = (jsonError ''Document expired'' 410, st')"
      unfolding st'_def using documentViewGET_expired [of env now t p st doc] a by simp
    have gone: "documentOf (tok_documentId p) st' = None"
      by (simp add: st'_def documentOf_def find_deleteDocumentRow)
    have b: "blobs st' = (if destroyOk then blobs st - {cloudinaryId doc} else blobs st)"
      by (simp add: st'_def deleteExpiredDocument_def)
    have again: "verifyDocumentToken env now' t' = Some p' \<and> tok_documentId p' = tok_documentId p \<longrightarrow>
            documentViewGET env now' destroyOk' fetchUpstream' sign' (Some t') st'
            = (jsonError ''Document not found'' 404, st')"
      using documentViewGET_missing [of env now' t' p' st'] gone by auto
    show "fst (documentViewGET env now destroyOk fetchUpstream sign (Some t) st)
        = jsonError ''Document expired'' 410
      \<and> documentOf (tok_documentId p)
           (snd (documentViewGET env now destroyOk fetchUpstream sign (Some t) st)) = None
      \<and> blobs (snd (documentViewGET env now destroyOk fetchUpstream sign (Some t) st))
           = (if destroyOk then blobs st - {cloudinaryId doc} else blobs st)
      \<and> (verifyDocumentToken env now' t' = Some p' \<and> tok_documentId p' = tok_documentId p \<longrightarrow>
            documentViewGET env now' destroyOk' fetchUpstream' sign' (Some t')
              (snd (documentViewGET env now destroyOk fetchUpstream sign (Some t) st))
            = (jsonError ''Document not found'' 404,
               snd (documentViewGET env now destroyOk fetchUpstream sign (Some t) st)))"
      unfolding r using gone b again by simp
  qed
  have p3: "httpStatus (fst (documentViewGET env now destroyOk fetchUpstream sign tokenArg st)) = 200
        \<or> httpStatus (fst (documentViewGET env now destroyOk fetchUpstream sign tokenArg st)) = 302 \<longrightarrow>
      (\<exists>t p doc. tokenArg = Some t \<and> verifyDocumentToken env now t = Some p
            \<and> documentOf (tok_documentId p) st = Some doc \<and> now < doc_expiresAt doc)"
    using documentViewGET_served [of env now destroyOk fetchUpstream sign tokenArg st] by blast
  show ?thesis using p1 p2 p3 by blast
qed

text \<open>
  The token of \<open>p1\<close> at second 2500 (expired) on the unexpired document; at second 1600
  (valid) on a document expired at 1500000, and on the unexpired document.
\<close>

theorem C8_token_and_document_expiry_witness:
  "documentViewGET exTokenEnv 2500000 True exFetch exSign (Some exToken) (exDocState 4500000)
     = (jsonError ''Invalid or expired token'' 401, exDocState 4500000)
   \<and> fst (documentViewGET exTokenEnv 1600000 True exFetch exSign (Some exToken) (exDocState 1500000))
     = jsonError ''Document expired'' 410
   \<and> documentOf ''doc1''
        (snd (documentViewGET exTokenEnv 1600000 True exFetch exSign (Some exToken) (exDocState 1500000)))
     = None
   \<and> blobs (snd (documentViewGET exTokenEnv 1600000 True exFetch exSign (Some exToken) (exDocState 1500000)))
     = {}
   \<and> httpStatus (fst (documentViewGET exTokenEnv 1600000 True exFetch exSign (Some exToken) (exDocState 4500000)))
     = 200"
proof -
  have a: "exToken \<noteq> [] \<and> tokenPayload exTokenEnv exToken = Some exPayload
           \<and> tok_exp exPayload < 2500000 div 1000"
    by (simp add: exDoc_simps)
  have b: "verifyDocumentToken exTokenEnv 1600000 exToken = Some exPayload
           \<and> documentOf (tok_documentId exPayload) (exDocState 1500000)
               = Some (exDocument\<lparr>doc_expiresAt := 1500000\<rparr>)
           \<and> doc_expiresAt (exDocument\<lparr>doc_expiresAt := 1500000\<rparr>) \<le> 1600000"
    by (simp add: exDoc_simps)
  have c: "tok_documentId exPayload = ''doc1''" "blobs (exDocState 1500000) = {''c1''}"
    "cloudinaryId (exDocument\<lparr>doc_expiresAt := 1500000\<rparr>) = ''c1''"
    by (simp_all add: exDoc_simps)
  have e: "httpStatus (fst (documentViewGET exTokenEnv 1600000 True exFetch exSign (Some exToken)
             (exDocState 4500000))) = 200"
    by (simp add: documentViewGET_def exDoc_simps)
  from C8_token_and_document_expiry [where t = exToken and env = exTokenEnv and p = exPayload
      and now = 2500000 and destroyOk = True and fetchUpstream = exFetch and sign = exSign
      and st = "exDocState 4500000"] a
  have r1: "documentViewGET exTokenEnv 2500000 True exFetch exSign (Some exToken) (exDocState 4500000)
     = (jsonError ''Invalid or expired token'' 401, exDocState 4500000)"
    by blast
  from C8_token_and_document_expiry [where t = exToken and env = exTokenEnv and p = exPayload
      and now = 1600000 and destroyOk = True and fetchUpstream = exFetch and sign = exSign
      and st = "exDocState 1500000" and doc = "exDocument\<lparr>doc_expiresAt := 1500000\<rparr>"] b
  have r2: "fst (documentViewGET exTokenEnv 1600000 True exFetch exSign (Some exToken) (exDocState 1500000))
     = jsonError ''Document expired'' 410
   \<and> documentOf (tok_documentId exPayload)
        (snd (documentViewGET exTokenEnv 1600000 True exFetch exSign (Some exToken) (exDocState 1500000)))
     = None
   \<and> blobs (snd (documentViewGET exTokenEnv 1600000 True exFetch exSign (Some exToken) (exDocState 1500000)))
     = (if True then blobs (exDocState 1500000) - {cloudinaryId (exDocument\<lparr>doc_expiresAt := 1500000\<rparr>)}
        else blobs (exDocState 1500000))"
    by blast
  show ?thesis using r1 r2 e by (simp add: c)
qed

subsection \<open>C9: coordinates out of range\<close>

text \<open>
  Claim C9 says that create and the patient location update reject coordinates out of
  range before any write. Both handlers test only that the coordinates are present and
  finite: with latitude 91, create writes the emergency row and the patient update
  overwrites the patient's latitude. The driver location report does reject latitude 91
  and leaves the store as it was.
\<close>

theorem C9_latitude_91_is_written:
  "\<not> isValidCoordinate 91 0
   \<and> snd (sosPOST (\<lambda>a b. 0) 5000 ''e2'' None (Some ruPatient1)
        (Some \<lparr>loc_lat = Some 91, loc_lng = Some 0, loc_address = None\<rparr>) None
        \<lparr>users = [], emergencies = [], documents = []\<rparr>)
      = \<lparr>users = [], emergencies = [createdEmergency ''e2'' ''p1'' 5000
            \<lparr>loc_lat = Some 91, loc_lng = Some 0, loc_address = None\<rparr> None], documents = []\<rparr>
   \<and> patientLat (createdEmergency ''e2'' ''p1'' 5000
            \<lparr>loc_lat = Some 91, loc_lng = Some 0, loc_address = None\<rparr> None) = 91
   \<and> snd (sosPATCH (Some ruPatient1) (Some ''e1'')
        (Some \<lparr>loc_lat = Some 91, loc_lng = Some 0, loc_address = None\<rparr>) (exDb ''pending''))
      = (exDb ''pending'')\<lparr>emergencies := [(exEmergency ''pending'')\<lparr>patientLat := 91\<rparr>]\<rparr>
   \<and> driverLocationPOST 5000 (Some ruDriver1) (Some ''e1'') (Some 91) (Some 0) (exDb ''pending'')
      = (jsonError ''Invalid coordinates'' 400, exDb ''pending'')"
  by (simp add: isValidCoordinate_def sosPOST_def sosPATCH_def driverLocationPOST_def exDb_def exEmergency_def
      ruPatient1_def ruDriver1_def truthy_def invalidLocation_def updateEmergency_def
      findNearestHospitals_def fallbackHospitalOf_def sortBy_def createdEmergency_def Let_def
      patientLocationData_def insertEmergency_def)

subsection \<open>C10: the tracking read cache\<close>

text \<open>
  Claim C10: a tracking read for which the cache holds a fresh entry under the key of
  (role, requester id, emergency id) answers with the cached payload, whatever the store
  holds (the emergency is not read and the access predicate is not evaluated): within the
  entry's 2 second life on the normal path, and within 30 seconds of its creation, marked
  stale, when the read of the emergency fails. So a requester who read the tracking of an
  emergency at \<open>t0\<close> gets the same payload until \<open>t0 + 2000\<close> from any later store, also
  one in which the requester's assignment is revoked.
\<close>

theorem C10_fresh_cache_entry_is_served:
  assumes "truthy emergencyIdArg"
  shows "(cache (trackingCacheKey ru (the emergencyIdArg)) = Some c \<and> now < expiresAt c \<longrightarrow>
            trackingGET now readFails (Some ru) emergencyIdArg cache d
              = (NextResponse 200 (payload c), cache))
       \<and> (cache (trackingCacheKey ru (the emergencyIdArg)) = Some c \<and> \<not> now < expiresAt c
            \<and> readFails \<and> now - createdAt c < 30000 \<longrightarrow>
            trackingGET now readFails (Some ru) emergencyIdArg cache d
              = (NextResponse 200 (markStale (payload c)), cache))
       \<and> (cache0 (trackingCacheKey ru (the emergencyIdArg)) = None
            \<and> find (\<lambda>e. em_id e = the emergencyIdArg) (emergencies d0) = Some em \<and> hasAccess ru em
            \<and> cache = snd (trackingGET t0 False (Some ru) emergencyIdArg cache0 d0)
            \<and> now < t0 + 2000 \<longrightarrow>
            trackingGET now readFails (Some ru) emergencyIdArg cache d
              = (NextResponse 200 (trackingPayload d0 em), cache))"
  using assms by (simp add: trackingGET_def Let_def)

text \<open>
  Driver \<open>dr1\<close> reads the tracking of \<open>e1\<close> at time 1000000; the assignment is revoked;
  the read at 1001999 still gives the payload, the read at 1002000 is refused.
\<close>

theorem C10_revoked_driver_still_served:
  "\<not> hasAccess ruDriver1 ((exEmergency ''en_route'')\<lparr>assignedDriverId := None\<rparr>)
   \<and> trackingGET 1001999 False (Some ruDriver1) (Some ''e1'')
        (snd (trackingGET 1000000 False (Some ruDriver1) (Some ''e1'') Map.empty (exDb ''en_route'')))
        exDbRevoked
      = (NextResponse 200 (trackingPayload (exDb ''en_route'') (exEmergency ''en_route'')),
         snd (trackingGET 1000000 False (Some ruDriver1) (Some ''e1'') Map.empty (exDb ''en_route'')))
   \<and> fst (trackingGET 1002000 False (Some ruDriver1) (Some ''e1'')
        (snd (trackingGET 1000000 False (Some ruDriver1) (Some ''e1'') Map.empty (exDb ''en_route'')))
        exDbRevoked)
      = jsonError ''Unauthorized'' 403"
proof -
  have t: "truthy (Some ''e1'')" by (simp add: truthy_def)
  have f: "find (\<lambda>e. em_id e = the (Some ''e1'')) (emergencies (exDb ''en_route''))
             = Some (exEmergency ''en_route'')"
    by (simp add: exDb_def exEmergency_def)
  have a: "hasAccess ruDriver1 (exEmergency ''en_route'')"
    by (simp add: hasAccess_def ruDriver1_def exEmergency_def)
  have n: "\<not> hasAccess ruDriver1 ((exEmergency ''en_route'')\<lparr>assignedDriverId := None\<rparr>)"
    by (simp add: hasAccess_def ruDriver1_def exEmergency_def)
  have r: "fst (trackingGET 1002000 False (Some ruDriver1) (Some ''e1'')
        (snd (trackingGET 1000000 False (Some ruDriver1) (Some ''e1'') Map.empty (exDb ''en_route'')))
        exDbRevoked)
      = jsonError ''Unauthorized'' 403"
    by (simp add: trackingGET_def truthy_def Let_def exDbRevoked_def exDb_def exEmergency_def
        hasAccess_def ruDriver1_def)
  show ?thesis
    using C10_fresh_cache_entry_is_served [OF t, where ?cache0.0 = Map.empty and ru = ruDriver1
        and ?d0.0 = "exDb ''en_route''" and em = "exEmergency ''en_route''" and ?t0.0 = 1000000
        and now = 1001999 and readFails = False and d = exDbRevoked
        and cache = "snd (trackingGET 1000000 False (Some ruDriver1) (Some ''e1'') Map.empty (exDb ''en_route''))"]
      f a n r
    by simp
qed

end
